theory Spec2Isabelle
  imports Complex_Main "HOL-Library.Multiset"
begin

section \<open>JavaScript values\<close>

text \<open>
  The SDK (\<^verbatim>\<open>src/src/index.ts\<close>) works on untyped JavaScript values (\<^verbatim>\<open>any\<close>).
  The value universe of this development is the data an action handler receives and
  returns: \<^verbatim>\<open>undefined\<close>, \<^verbatim>\<open>null\<close>, booleans, numbers, strings, arrays and plain
  objects.

  \<^item> Numbers are \<^verbatim>\<open>NaN\<close>, the two infinities and the finite numbers. A finite number
    is given by its value, a rational; \<^verbatim>\<open>-0\<close> is identified with \<^verbatim>\<open>0\<close>. The finite
    numbers of the language are the rationals that binary64 represents, and what is
    proved for every rational holds for them. How the host writes a finite number in
    decimal and which number it reads from a numeral are parameters (\<open>js_env\<close>).
  \<^item> Strings are lists of code units; a \<open>char\<close> is a code unit below 256.
  \<^item> An object is the list of its own enumerable properties in enumeration order;
    a lookup reads the first entry for a name.
  \<^item> Function values and boxed primitives (\<^verbatim>\<open>new String(..)\<close>) are outside the
    universe. So are the members that a value inherits from the built-in prototypes
    (\<^verbatim>\<open>constructor\<close>, \<^verbatim>\<open>hasOwnProperty\<close>, ...): a computation that reads one of them by
    a computed name has the outcome \<open>Builtin\<close>, which says that the code goes on with a
    value of the host (a function, the result or the exception of an accessor) that
    this development does not describe.
\<close>

datatype jsnum = NaN | NegInf | Fin rat | PosInf

datatype jsval =
    JUndefined
  | JNull
  | JBool bool
  | JNum jsnum
  | JStr string
  | JArr "jsval list"
  | JObj "(string \<times> jsval) list"

text \<open>The errors a call of the SDK can end with.\<close>

datatype error =
    TypeError
  | HttpError string

text \<open>
  The outcome of a computation that may read an inherited member: a value, an
  exception, or \<open>Builtin\<close>.
\<close>

datatype 'a result =
    Returns 'a
  | Throws error
  | Builtin

text \<open>\<^verbatim>\<open>ToBoolean\<close>: the test of \<^verbatim>\<open>if (value)\<close>, \<^verbatim>\<open>value && ..\<close> and \<^verbatim>\<open>!!value\<close>.\<close>

fun truthy :: "jsval \<Rightarrow> bool" where
  "truthy JUndefined = False"
| "truthy JNull = False"
| "truthy (JBool b) = b"
| "truthy (JNum NaN) = False"
| "truthy (JNum (Fin n)) = (n \<noteq> 0)"
| "truthy (JNum NegInf) = True"
| "truthy (JNum PosInf) = True"
| "truthy (JStr s) = (s \<noteq> [])"
| "truthy (JArr xs) = True"
| "truthy (JObj kvs) = True"

text \<open>\<^verbatim>\<open>typeof value === 'string'\<close>.\<close>

fun is_string :: "jsval \<Rightarrow> bool" where
  "is_string (JStr s) = True"
| "is_string _ = False"

subsection \<open>The host\<close>

text \<open>
  Five primitives of the host are parameters of the development, since the language
  leaves them to the implementation or they compute with floating point numerals:

  \<^item> the collation of \<^verbatim>\<open>String.prototype.localeCompare\<close>;
  \<^item> the conversion of a string to a number (\<^verbatim>\<open>StringToNumber\<close>), which is also the
    value that \<^verbatim>\<open>JSON.parse\<close> gives a numeral;
  \<^item> the decimal text of a finite number (\<^verbatim>\<open>Number::toString\<close>);
  \<^item> which names a value inherits from the built-in prototypes;
  \<^item> \<^verbatim>\<open>Array.prototype.sort\<close>, given the comparison function and the elements of
    the array: the language fixes what it achieves (\<open>conforming_sort\<close> below), not
    the calls of the comparison function that it makes.

  Every theorem holds for each choice of them.
\<close>

record js_env =
  localeCompare :: "string \<Rightarrow> string \<Rightarrow> int"
  StringToNumber :: "string \<Rightarrow> jsnum"
  NumberToString :: "rat \<Rightarrow> string"
  Inherits :: "jsval \<Rightarrow> string \<Rightarrow> bool"
  ArraySort :: "(jsval \<Rightarrow> jsval \<Rightarrow> int result) \<Rightarrow> jsval list \<Rightarrow> jsval list result"

subsection \<open>Decimal numerals\<close>

definition is_digit :: "char \<Rightarrow> bool" where
  "is_digit c = (48 \<le> (of_char c :: nat) \<and> (of_char c :: nat) \<le> 57)"

definition digit_val :: "char \<Rightarrow> nat" where
  "digit_val c = of_char c - 48"

text \<open>
  A property name is an array index when it is the canonical numeral of a natural
  number: digits only, no leading zero.
\<close>

definition array_index :: "string \<Rightarrow> nat option" where
  "array_index k =
     (if k \<noteq> [] \<and> list_all is_digit k \<and> (hd k = CHR ''0'' \<longrightarrow> length k = 1)
      then Some (foldl (\<lambda>acc c. 10 * acc + digit_val c) 0 k) else None)"

subsection \<open>String conversion\<close>

text \<open>
  \<^verbatim>\<open>ToString\<close>, as a template literal and string concatenation apply it. An array
  joins its elements with commas, \<^verbatim>\<open>null\<close> and \<^verbatim>\<open>undefined\<close> elements giving the
  empty string. A plain object gives \<^verbatim>\<open>[object Object]\<close>, by the \<^verbatim>\<open>toString\<close> that it
  inherits; when it has an own property \<^verbatim>\<open>toString\<close>, that property is read in its
  place, and since no value of the universe can be called the conversion throws a
  \<^verbatim>\<open>TypeError\<close> (an own \<^verbatim>\<open>valueOf\<close> is skipped for the same reason, and the inherited
  one returns the object, which is no primitive).
\<close>

fun num_to_string :: "js_env \<Rightarrow> jsnum \<Rightarrow> string" where
  "num_to_string env NaN = ''NaN''"
| "num_to_string env NegInf = ''-Infinity''"
| "num_to_string env PosInf = ''Infinity''"
| "num_to_string env (Fin q) = NumberToString env q"

fun join_with :: "string \<Rightarrow> string list \<Rightarrow> string" where
  "join_with sep [] = []"
| "join_with sep [x] = x"
| "join_with sep (x # y # ys) = x @ sep @ join_with sep (y # ys)"

fun to_string :: "js_env \<Rightarrow> jsval \<Rightarrow> error + string"
  and elems_to_strings :: "js_env \<Rightarrow> jsval list \<Rightarrow> error + string list" where
  "to_string env JUndefined = Inr ''undefined''"
| "to_string env JNull = Inr ''null''"
| "to_string env (JBool b) = Inr (if b then ''true'' else ''false'')"
| "to_string env (JNum n) = Inr (num_to_string env n)"
| "to_string env (JStr s) = Inr s"
| "to_string env (JArr xs) =
     (case elems_to_strings env xs of
        Inl e \<Rightarrow> Inl e
      | Inr ts \<Rightarrow> Inr (join_with '','' ts))"
| "to_string env (JObj kvs) =
     (if map_of kvs ''toString'' = None then Inr ''[object Object]'' else Inl TypeError)"
| "elems_to_strings env [] = Inr []"
| "elems_to_strings env (x # xs) =
     (case (if x = JUndefined \<or> x = JNull then Inr [] else to_string env x) of
        Inl e \<Rightarrow> Inl e
      | Inr t \<Rightarrow>
          (case elems_to_strings env xs of
             Inl e \<Rightarrow> Inl e
           | Inr ts \<Rightarrow> Inr (t # ts)))"

subsection \<open>Property access\<close>

text \<open>
  \<^verbatim>\<open>value[name]\<close> for a computed name. Reading a property of \<^verbatim>\<open>null\<close> or
  \<^verbatim>\<open>undefined\<close> throws a \<^verbatim>\<open>TypeError\<close>. Every other value answers with its own
  property of that name when it has one: an object with the first entry for the name,
  an array or a string with \<^verbatim>\<open>length\<close> and its indices. For another name the answer
  is \<^verbatim>\<open>undefined\<close>, unless the value inherits a member of that name from a built-in
  prototype: then the outcome is \<open>Builtin\<close>.
\<close>

fun own_property :: "jsval \<Rightarrow> string \<Rightarrow> jsval option" where
  "own_property (JObj kvs) k = map_of kvs k"
| "own_property (JArr xs) k =
     (if k = ''length'' then Some (JNum (Fin (of_nat (length xs))))
      else case array_index k of
             Some i \<Rightarrow> if i < length xs then Some (xs ! i) else None
           | None \<Rightarrow> None)"
| "own_property (JStr s) k =
     (if k = ''length'' then Some (JNum (Fin (of_nat (length s))))
      else case array_index k of
             Some i \<Rightarrow> if i < length s then Some (JStr [s ! i]) else None
           | None \<Rightarrow> None)"
| "own_property v k = None"

definition get_member :: "js_env \<Rightarrow> jsval \<Rightarrow> string \<Rightarrow> jsval result" where
  "get_member env v k =
     (if v = JUndefined \<or> v = JNull then Throws TypeError
      else case own_property v k of
             Some x \<Rightarrow> Returns x
           | None \<Rightarrow> if Inherits env v k then Builtin else Returns JUndefined)"

text \<open>
  \<^verbatim>\<open>value.name\<close> for a name that the source writes: \<^verbatim>\<open>event.body\<close>, the six names of
  the destructuring assignment in \<^verbatim>\<open>initialize\<close>, \<^verbatim>\<open>opts?.bypassValidation\<close>. No
  built-in prototype has a member of one of these names and none of them is \<^verbatim>\<open>length\<close>
  or an index, so only an object answers with something else than \<^verbatim>\<open>undefined\<close>, and
  with its own property.
\<close>

datatype field =
    Body
  | AuthToken
  | SandboxKey
  | ServiceAddress
  | ActionSubject
  | UserContext
  | Params
  | BypassValidation

fun field_name :: "field \<Rightarrow> string" where
  "field_name Body = ''body''"
| "field_name AuthToken = ''authToken''"
| "field_name SandboxKey = ''sandboxKey''"
| "field_name ServiceAddress = ''serviceAddress''"
| "field_name ActionSubject = ''actionSubject''"
| "field_name UserContext = ''userContext''"
| "field_name Params = ''params''"
| "field_name BypassValidation = ''bypassValidation''"

fun get_field :: "jsval \<Rightarrow> field \<Rightarrow> error + jsval" where
  "get_field JUndefined f = Inl TypeError"
| "get_field JNull f = Inl TypeError"
| "get_field (JObj kvs) f =
     Inr (case map_of kvs (field_name f) of None \<Rightarrow> JUndefined | Some v \<Rightarrow> v)"
| "get_field v f = Inr JUndefined"

subsection \<open>String primitives\<close>

text \<open>\<^verbatim>\<open>s.split(c)\<close> for a one-character separator: never empty, \<^verbatim>\<open>"".split(".")\<close> is \<^verbatim>\<open>[""]\<close>.\<close>

fun split_on :: "char \<Rightarrow> string \<Rightarrow> string list" where
  "split_on c [] = [[]]"
| "split_on c (x # xs) =
     (if x = c then [] # split_on c xs
      else case split_on c xs of
             w # ws \<Rightarrow> (x # w) # ws
           | [] \<Rightarrow> [[x]])"

text \<open>\<^verbatim>\<open>s.replace(pat, rep)\<close> with a string pattern: only the first occurrence is replaced.\<close>

fun replace_first :: "string \<Rightarrow> string \<Rightarrow> string \<Rightarrow> string" where
  "replace_first pat rep [] = (if pat = [] then rep else [])"
| "replace_first pat rep (x # xs) =
     (if take (length pat) (x # xs) = pat then rep @ drop (length pat) (x # xs)
      else x # replace_first pat rep xs)"

section \<open>Attribute path resolution\<close>

text \<open>
  \<^verbatim>\<open>getValueFromObject(object, attribute)\<close>, index.ts lines 334-357. The loop over the
  components is \<open>walk_components\<close>: a falsy \<open>value\<close> skips the body, a component with a
  colon reads the field named by \<^verbatim>\<open>compSplit[1].replace("Key", "")\<close>, any other
  component reads the field of its own name.
\<close>

definition component_field :: "string \<Rightarrow> string" where
  "component_field component =
     (let compSplit = split_on CHR '':'' component
      in if length compSplit > 1 then replace_first ''Key'' '''' (compSplit ! 1) else component)"

fun walk_components :: "js_env \<Rightarrow> jsval \<Rightarrow> string list \<Rightarrow> jsval result" where
  "walk_components env v [] = Returns v"
| "walk_components env v (component # rest) =
     (if truthy v then
        (case get_member env v (component_field component) of
           Returns v' \<Rightarrow> walk_components env v' rest
         | Throws e \<Rightarrow> Throws e
         | Builtin \<Rightarrow> Builtin)
      else walk_components env v rest)"

definition getValueFromObject :: "js_env \<Rightarrow> jsval \<Rightarrow> string \<Rightarrow> jsval result" where
  "getValueFromObject env object attribute =
     walk_components env object (split_on CHR ''.'' attribute)"

text \<open>
  The rule as the specification words it (section 9): the field is the second component
  without its trailing \<^verbatim>\<open>Key\<close>. It is stated here to be compared with
  \<open>component_field\<close>.
\<close>

definition strip_trailing_Key :: "string \<Rightarrow> string" where
  "strip_trailing_Key s =
     (if 3 \<le> length s \<and> drop (length s - 3) s = ''Key'' then take (length s - 3) s else s)"

section \<open>Comparison\<close>

subsection \<open>The relational operators\<close>

text \<open>
  \<^verbatim>\<open>a < b\<close> on arbitrary values: both sides are converted to primitives, the left one
  first (an array or a plain object to its string, which can throw); two strings are
  compared by code units, anything else after \<^verbatim>\<open>ToNumber\<close>, and a comparison with
  \<^verbatim>\<open>NaN\<close> is false. \<^verbatim>\<open>a > b\<close> converts its operands in the same order and tests
  \<^verbatim>\<open>b < a\<close> on the primitives.
\<close>

datatype prim =
    PUndefined
  | PNull
  | PBool bool
  | PNum jsnum
  | PStr string

fun to_primitive :: "js_env \<Rightarrow> jsval \<Rightarrow> error + prim" where
  "to_primitive env JUndefined = Inr PUndefined"
| "to_primitive env JNull = Inr PNull"
| "to_primitive env (JBool b) = Inr (PBool b)"
| "to_primitive env (JNum n) = Inr (PNum n)"
| "to_primitive env (JStr s) = Inr (PStr s)"
| "to_primitive env (JArr xs) =
     (case to_string env (JArr xs) of Inl e \<Rightarrow> Inl e | Inr t \<Rightarrow> Inr (PStr t))"
| "to_primitive env (JObj kvs) =
     (case to_string env (JObj kvs) of Inl e \<Rightarrow> Inl e | Inr t \<Rightarrow> Inr (PStr t))"

fun to_number :: "js_env \<Rightarrow> prim \<Rightarrow> jsnum" where
  "to_number env PUndefined = NaN"
| "to_number env PNull = Fin 0"
| "to_number env (PBool b) = Fin (if b then 1 else 0)"
| "to_number env (PNum n) = n"
| "to_number env (PStr s) = StringToNumber env s"

fun str_lt :: "string \<Rightarrow> string \<Rightarrow> bool" where
  "str_lt [] [] = False"
| "str_lt [] (y # ys) = True"
| "str_lt (x # xs) [] = False"
| "str_lt (x # xs) (y # ys) =
     (if (of_char x :: nat) < of_char y then True
      else if x = y then str_lt xs ys else False)"

fun num_lt :: "jsnum \<Rightarrow> jsnum \<Rightarrow> bool" where
  "num_lt NaN y = False"
| "num_lt x NaN = False"
| "num_lt (Fin a) (Fin b) = (a < b)"
| "num_lt NegInf NegInf = False"
| "num_lt NegInf y = True"
| "num_lt x NegInf = False"
| "num_lt PosInf y = False"
| "num_lt x PosInf = True"

definition prim_lt :: "js_env \<Rightarrow> prim \<Rightarrow> prim \<Rightarrow> bool" where
  "prim_lt env pa pb =
     (case (pa, pb) of
        (PStr x, PStr y) \<Rightarrow> str_lt x y
      | _ \<Rightarrow> num_lt (to_number env pa) (to_number env pb))"

definition js_lt :: "js_env \<Rightarrow> jsval \<Rightarrow> jsval \<Rightarrow> error + bool" where
  "js_lt env a b =
     (case to_primitive env a of
        Inl e \<Rightarrow> Inl e
      | Inr pa \<Rightarrow>
          (case to_primitive env b of
             Inl e \<Rightarrow> Inl e
           | Inr pb \<Rightarrow> Inr (prim_lt env pa pb)))"

definition js_gt :: "js_env \<Rightarrow> jsval \<Rightarrow> jsval \<Rightarrow> error + bool" where
  "js_gt env a b =
     (case to_primitive env a of
        Inl e \<Rightarrow> Inl e
      | Inr pa \<Rightarrow>
          (case to_primitive env b of
             Inl e \<Rightarrow> Inl e
           | Inr pb \<Rightarrow> Inr (prim_lt env pb pa)))"

subsection \<open>Lower case\<close>

text \<open>\<^verbatim>\<open>toLowerCase\<close> on the code units below 256: the letters A-Z and the capital
  letters of Latin-1 move up by 32.\<close>

definition lower_char :: "char \<Rightarrow> char" where
  "lower_char c =
     (let n = of_char c :: nat
      in if (65 \<le> n \<and> n \<le> 90) \<or> (192 \<le> n \<and> n \<le> 222 \<and> n \<noteq> 215)
         then char_of (n + 32) else c)"

definition toLowerCase :: "string \<Rightarrow> string" where
  "toLowerCase s = map lower_char s"

subsection \<open>compareValues\<close>

text \<open>
  \<^verbatim>\<open>compareValues(valueA, valueB, descending, caseInsensitive)\<close>, index.ts lines
  292-319. The branch for strings is entered on \<^verbatim>\<open>typeof valueA === 'string'\<close>; the
  other disjunct, \<^verbatim>\<open>valueA instanceof String\<close>, holds for no value of the universe.
  In that branch \<^verbatim>\<open>valueB.toLowerCase()\<close> is a call of a method that only a string
  has: for a truthy \<open>valueB\<close> of another type it throws a \<^verbatim>\<open>TypeError\<close>. The result
  of \<^verbatim>\<open>localeCompare\<close> is a number that is negative, zero or positive. In the other
  branch \<^verbatim>\<open>valueA < valueB\<close> is evaluated first and \<^verbatim>\<open>valueA > valueB\<close> only when it
  is false; an exception of either ends the call.
\<close>

definition compareValues :: "js_env \<Rightarrow> jsval \<Rightarrow> jsval \<Rightarrow> bool \<Rightarrow> bool \<Rightarrow> error + int" where
  "compareValues env valueA valueB descending caseInsensitive =
     (if caseInsensitive \<and> is_string valueA then
        (if truthy valueA \<and> truthy valueB then
           (case (valueA, valueB) of
              (JStr a, JStr b) \<Rightarrow>
                (let comp = localeCompare env (toLowerCase a) (toLowerCase b)
                 in Inr (if descending then comp * (- 1) else comp))
            | _ \<Rightarrow> Inl TypeError)
         else if truthy valueA \<and> \<not> truthy valueB then Inr (- 1)
         else if \<not> truthy valueA \<and> truthy valueB then Inr 1
         else Inr 0)
      else
        (case js_lt env valueA valueB of
           Inl e \<Rightarrow> Inl e
         | Inr is_less \<Rightarrow>
             if is_less then Inr (if descending then 1 else - 1)
             else
               (case js_gt env valueA valueB of
                  Inl e \<Rightarrow> Inl e
                | Inr is_greater \<Rightarrow>
                    if is_greater then Inr (if descending then - 1 else 1) else Inr 0)))"

section \<open>Sorting\<close>

text \<open>The interface \<^verbatim>\<open>SortField\<close>, index.ts lines 424-433; \<^verbatim>\<open>!!s.descending\<close> reads
  an absent flag as false.\<close>

record SortField =
  attributeId :: string
  descending :: "bool option"
  caseInsensitive :: "bool option"
  autoSequence :: "bool option"

definition double_bang :: "bool option \<Rightarrow> bool" where
  "double_bang flag = (case flag of None \<Rightarrow> False | Some b \<Rightarrow> b)"

text \<open>
  The comparison function that \<^verbatim>\<open>sortObjectArray\<close> hands to \<^verbatim>\<open>array.sort\<close>, index.ts
  lines 263-277: \<open>comparison\<close> starts at 0, and the loop over the sort fields breaks at
  the first comparison that is not 0.
\<close>

fun compare_fields :: "js_env \<Rightarrow> jsval \<Rightarrow> jsval \<Rightarrow> SortField list \<Rightarrow> int result" where
  "compare_fields env a b [] = Returns 0"
| "compare_fields env a b (s # ss) =
     (case getValueFromObject env a (attributeId s) of
        Throws e \<Rightarrow> Throws e
      | Builtin \<Rightarrow> Builtin
      | Returns valueA \<Rightarrow>
          (case getValueFromObject env b (attributeId s) of
             Throws e \<Rightarrow> Throws e
           | Builtin \<Rightarrow> Builtin
           | Returns valueB \<Rightarrow>
               (case compareValues env valueA valueB
                       (double_bang (descending s)) (double_bang (caseInsensitive s)) of
                  Inl e \<Rightarrow> Throws e
                | Inr comparison \<Rightarrow>
                    if comparison \<noteq> 0 then Returns comparison else compare_fields env a b ss)))"

text \<open>
  \<^verbatim>\<open>Array.prototype.sort\<close> is the host's (\<open>ArraySort\<close>). It orders the elements by
  \<open>SortCompare\<close>, which never hands \<^verbatim>\<open>undefined\<close> elements to the comparison function
  and puts them last. \<^verbatim>\<open>sortObjectArray(array, sort)\<close>, index.ts lines 261-278, sorts
  the array behind the reference and returns the reference; arrays that the SDK mutates
  live in a store, addressed by reference. An exception of the comparison function ends
  the sort, and the array keeps its contents.
\<close>

definition SortCompare :: "(jsval \<Rightarrow> jsval \<Rightarrow> int result) \<Rightarrow> jsval \<Rightarrow> jsval \<Rightarrow> int result" where
  "SortCompare comparefn x y =
     (if x = JUndefined \<and> y = JUndefined then Returns 0
      else if x = JUndefined then Returns 1
      else if y = JUndefined then Returns (- 1)
      else comparefn x y)"

type_synonym ref = nat
type_synonym heap = "ref \<Rightarrow> jsval list option"

definition sortObjectArray :: "js_env \<Rightarrow> heap \<Rightarrow> ref \<Rightarrow> SortField list \<Rightarrow> (heap \<times> ref) result" where
  "sortObjectArray env h array sortFields =
     (case h array of
        None \<Rightarrow> Throws TypeError
      | Some elems \<Rightarrow>
          (case ArraySort env (\<lambda>a b. compare_fields env a b sortFields) elems of
             Throws e \<Rightarrow> Throws e
           | Builtin \<Rightarrow> Builtin
           | Returns sorted_elems \<Rightarrow> Returns (h(array \<mapsto> sorted_elems), array)))"


definition comparison_of :: "(jsval \<Rightarrow> jsval \<Rightarrow> int result) \<Rightarrow> jsval \<Rightarrow> jsval \<Rightarrow> int option" where
  "comparison_of cmp a b = (case cmp a b of Returns c \<Rightarrow> Some c | Throws e \<Rightarrow> None | Builtin \<Rightarrow> None)"

definition ordered_before :: "(jsval \<Rightarrow> jsval \<Rightarrow> int result) \<Rightarrow> jsval \<Rightarrow> jsval \<Rightarrow> bool" where
  "ordered_before cmp a b = (case comparison_of cmp a b of Some c \<Rightarrow> c \<le> 0 | None \<Rightarrow> False)"

definition below :: "(jsval \<Rightarrow> jsval \<Rightarrow> int result) \<Rightarrow> jsval \<Rightarrow> jsval \<Rightarrow> bool" where
  "below cmp a b = (case comparison_of cmp a b of Some c \<Rightarrow> c < 0 | None \<Rightarrow> False)"

definition above :: "(jsval \<Rightarrow> jsval \<Rightarrow> int result) \<Rightarrow> jsval \<Rightarrow> jsval \<Rightarrow> bool" where
  "above cmp a b = (case comparison_of cmp a b of Some c \<Rightarrow> 0 < c | None \<Rightarrow> False)"

definition consistent_on :: "(jsval \<Rightarrow> jsval \<Rightarrow> int result) \<Rightarrow> jsval set \<Rightarrow> bool" where
  "consistent_on cmp S =
     ((\<forall>a\<in>S. \<forall>b\<in>S. comparison_of cmp a b \<noteq> None)
      \<and> (\<forall>a\<in>S. \<forall>b\<in>S. below cmp a b = above cmp b a)
      \<and> (\<forall>a\<in>S. \<forall>b\<in>S. \<forall>c\<in>S.
            ordered_before cmp a b \<and> ordered_before cmp b c \<longrightarrow> ordered_before cmp a c))"

definition conforming_sort ::
  "((jsval \<Rightarrow> jsval \<Rightarrow> int result) \<Rightarrow> jsval list \<Rightarrow> jsval list result) \<Rightarrow> bool" where
  "conforming_sort srt =
     (\<forall>comparefn xs.
        (\<forall>ys. srt comparefn xs = Returns ys \<longrightarrow> mset ys = mset xs)
      \<and> (\<forall>e. srt comparefn xs = Throws e \<longrightarrow>
              (\<exists>a\<in>set xs. \<exists>b\<in>set xs. SortCompare comparefn a b = Throws e))
      \<and> (srt comparefn xs = Builtin \<longrightarrow>
              (\<exists>a\<in>set xs. \<exists>b\<in>set xs. SortCompare comparefn a b = Builtin))
      \<and> (consistent_on (SortCompare comparefn) (set xs) \<longrightarrow>
              (\<exists>ys. srt comparefn xs = Returns ys
                  \<and> sorted_wrt (ordered_before (SortCompare comparefn)) ys)))"

text \<open>
  A sort that conforms: insertion, from the left, of each element into the elements
  before it, comparing the element with those before it from the nearest one on (the
  sorted elements are kept in reverse). It is stable.
\<close>

fun insert_later :: "(jsval \<Rightarrow> jsval \<Rightarrow> int result) \<Rightarrow> jsval \<Rightarrow> jsval list \<Rightarrow> jsval list result" where
  "insert_later cmp x [] = Returns [x]"
| "insert_later cmp x (y # ys) =
     (case cmp x y of
        Throws e \<Rightarrow> Throws e
      | Builtin \<Rightarrow> Builtin
      | Returns c \<Rightarrow>
          if c < 0 then
            (case insert_later cmp x ys of
               Throws e \<Rightarrow> Throws e
             | Builtin \<Rightarrow> Builtin
             | Returns zs \<Rightarrow> Returns (y # zs))
          else Returns (x # y # ys))"

fun sort_from :: "(jsval \<Rightarrow> jsval \<Rightarrow> int result) \<Rightarrow> jsval list \<Rightarrow> jsval list \<Rightarrow> jsval list result" where
  "sort_from cmp before [] = Returns (rev before)"
| "sort_from cmp before (x # xs) =
     (case insert_later cmp x before of
        Throws e \<Rightarrow> Throws e
      | Builtin \<Rightarrow> Builtin
      | Returns before' \<Rightarrow> sort_from cmp before' xs)"

definition insertion_sort :: "(jsval \<Rightarrow> jsval \<Rightarrow> int result) \<Rightarrow> jsval list \<Rightarrow> jsval list result" where
  "insertion_sort comparefn xs = sort_from (SortCompare comparefn) [] xs"



text \<open>Sorting by one field, with the two flags as given.\<close>

definition by_field :: "string \<Rightarrow> bool option \<Rightarrow> bool option \<Rightarrow> SortField list" where
  "by_field name desc ci =
     [\<lparr> attributeId = name, descending = desc, caseInsensitive = ci, autoSequence = None \<rparr>]"

section \<open>JSON text\<close>

text \<open>
  \<^verbatim>\<open>JSON.stringify(value)\<close>: \<^verbatim>\<open>undefined\<close> has no text (the result is \<^verbatim>\<open>undefined\<close>),
  an \<^verbatim>\<open>undefined\<close> element of an array is written \<^verbatim>\<open>null\<close>, a property whose value is
  \<^verbatim>\<open>undefined\<close> is left out, a number that is not finite is written \<^verbatim>\<open>null\<close>, and a
  finite number is written as the host writes it.
\<close>

definition hex_digit :: "nat \<Rightarrow> char" where
  "hex_digit d = (if d < 10 then char_of (48 + d) else char_of (87 + d))"

definition escape_char :: "char \<Rightarrow> string" where
  "escape_char c =
     (let n = of_char c :: nat
      in if n = 34 then [CHR 0x5C, CHR 0x22]
         else if n = 92 then [CHR 0x5C, CHR 0x5C]
         else if n = 8 then [CHR 0x5C, CHR ''b'']
         else if n = 9 then [CHR 0x5C, CHR ''t'']
         else if n = 10 then [CHR 0x5C, CHR ''n'']
         else if n = 12 then [CHR 0x5C, CHR ''f'']
         else if n = 13 then [CHR 0x5C, CHR ''r'']
         else if n < 32 then [CHR 0x5C, CHR ''u'', CHR ''0'', CHR ''0'', hex_digit (n div 16), hex_digit (n mod 16)]
         else [c])"

definition quote_json :: "string \<Rightarrow> string" where
  "quote_json s = CHR 0x22 # concat (map escape_char s) @ [CHR 0x22]"

fun json_text :: "js_env \<Rightarrow> jsval \<Rightarrow> string"
  and json_elems :: "js_env \<Rightarrow> jsval list \<Rightarrow> string list"
  and json_members :: "js_env \<Rightarrow> (string \<times> jsval) list \<Rightarrow> string list" where
  "json_text env JUndefined = []"
| "json_text env JNull = ''null''"
| "json_text env (JBool b) = (if b then ''true'' else ''false'')"
| "json_text env (JNum n) = (case n of Fin q \<Rightarrow> NumberToString env q | _ \<Rightarrow> ''null'')"
| "json_text env (JStr s) = quote_json s"
| "json_text env (JArr xs) = ''['' @ join_with '','' (json_elems env xs) @ '']''"
| "json_text env (JObj kvs) = ''{'' @ join_with '','' (json_members env kvs) @ ''}''"
| "json_elems env [] = []"
| "json_elems env (x # xs) =
     (if x = JUndefined then ''null'' else json_text env x) # json_elems env xs"
| "json_members env [] = []"
| "json_members env (kv # kvs) =
     (if snd kv = JUndefined then json_members env kvs
      else (quote_json (fst kv) @ '':'' @ json_text env (snd kv)) # json_members env kvs)"

definition JSON_stringify :: "js_env \<Rightarrow> jsval \<Rightarrow> jsval" where
  "JSON_stringify env v = (if v = JUndefined then JUndefined else JStr (json_text env v))"

text \<open>
  \<^verbatim>\<open>JSON.parse(text)\<close>. The result \<open>None\<close> stands for a text that is not JSON (the
  call throws a \<^verbatim>\<open>SyntaxError\<close>) or that denotes a string outside the universe, by a
  \<^verbatim>\<open>\u\<close> escape above \<^verbatim>\<open>00ff\<close>. The parser descends with a bound on its depth, which
  \<open>JSON_parse\<close> sets to the length of the text. A repeated property name keeps its
  first place and its last value.

  A number is the longest run of the characters that a numeral is written with; the run
  must be a numeral of the JSON grammar (an optional minus sign, an integer part without
  a leading zero, an optional fraction, an optional exponent), and its value is the
  number that the host reads from it.
\<close>

definition is_ws :: "char \<Rightarrow> bool" where
  "is_ws c = (c = CHR 0x20 \<or> c = CHR 0x09 \<or> c = CHR 0x0A \<or> c = CHR 0x0D)"

fun skip_ws :: "string \<Rightarrow> string" where
  "skip_ws [] = []"
| "skip_ws (c # cs) = (if is_ws c then skip_ws cs else c # cs)"

definition hex_val :: "char \<Rightarrow> nat option" where
  "hex_val c =
     (let n = of_char c :: nat
      in if 48 \<le> n \<and> n \<le> 57 then Some (n - 48)
         else if 97 \<le> n \<and> n \<le> 102 then Some (n - 87)
         else if 65 \<le> n \<and> n \<le> 70 then Some (n - 55)
         else None)"

definition unescape :: "char \<Rightarrow> char option" where
  "unescape e =
     (if e = CHR 0x22 then Some (CHR 0x22)
      else if e = CHR 0x5C then Some (CHR 0x5C)
      else if e = CHR ''/'' then Some (CHR ''/'')
      else if e = CHR ''b'' then Some (CHR 0x08)
      else if e = CHR ''f'' then Some (CHR 0x0C)
      else if e = CHR ''n'' then Some (CHR 0x0A)
      else if e = CHR ''r'' then Some (CHR 0x0D)
      else if e = CHR ''t'' then Some (CHR 0x09)
      else None)"

fun parse_chars :: "string \<Rightarrow> (string \<times> string) option" where
  "parse_chars [] = None"
| "parse_chars (c # cs) =
     (if c = CHR 0x22 then Some ([], cs)
      else if c = CHR 0x5C then
        (case cs of
           [] \<Rightarrow> None
         | e # cs1 \<Rightarrow>
             if e = CHR ''u'' then
               (case cs1 of
                  h1 # h2 # h3 # h4 # cs2 \<Rightarrow>
                    (case (hex_val h1, hex_val h2, hex_val h3, hex_val h4) of
                       (Some a, Some b, Some hi, Some lo) \<Rightarrow>
                         if a = 0 \<and> b = 0 then
                           (case parse_chars cs2 of
                              Some (s, r) \<Rightarrow> Some (char_of (16 * hi + lo) # s, r)
                            | None \<Rightarrow> None)
                         else None
                     | _ \<Rightarrow> None)
                | _ \<Rightarrow> None)
             else
               (case unescape e of
                  Some ch \<Rightarrow>
                    (case parse_chars cs1 of
                       Some (s, r) \<Rightarrow> Some (ch # s, r)
                     | None \<Rightarrow> None)
                | None \<Rightarrow> None))
      else if (of_char c :: nat) < 32 then None
      else (case parse_chars cs of Some (s, r) \<Rightarrow> Some (c # s, r) | None \<Rightarrow> None))"















section \<open>Session state and responses\<close>

text \<open>
  The module's exported variables, index.ts lines 26-74. They are declared without an
  initial value, so each is \<^verbatim>\<open>undefined\<close> until \<^verbatim>\<open>initialize\<close> assigns it.
\<close>

record session =
  authToken :: jsval
  sandboxKey :: jsval
  serviceAddress :: jsval
  actionSubject :: jsval
  userContext :: jsval
  params :: jsval
  useBody :: jsval

definition module_loaded :: session where
  "module_loaded =
     \<lparr> authToken = JUndefined, sandboxKey = JUndefined, serviceAddress = JUndefined,
       actionSubject = JUndefined, userContext = JUndefined, params = JUndefined,
       useBody = JUndefined \<rparr>"

text \<open>A property read that is known not to throw (its object is truthy).\<close>

definition field_of :: "jsval \<Rightarrow> field \<Rightarrow> jsval" where
  "field_of v f = (case get_field v f of Inr x \<Rightarrow> x | Inl e \<Rightarrow> JUndefined)"

text \<open>
  \<^verbatim>\<open>initialize(event)\<close>, index.ts lines 408-419. \<^verbatim>\<open>event.body\<close> throws for an event
  that is \<^verbatim>\<open>null\<close> or \<^verbatim>\<open>undefined\<close>; the destructuring assignment runs under
  \<^verbatim>\<open>if (body)\<close> and reads six properties of a truthy value.
\<close>

definition initialize :: "session \<Rightarrow> jsval \<Rightarrow> error + session" where
  "initialize s event =
     (case get_field event Body of
        Inl e \<Rightarrow> Inl e
      | Inr event_body \<Rightarrow>
          (let body = (if truthy event_body then event_body else event);
               s1 = (if truthy event_body then s\<lparr>useBody := JBool True\<rparr> else s)
           in if truthy body then
                Inr (s1\<lparr> authToken := field_of body AuthToken,
                          sandboxKey := field_of body SandboxKey,
                          serviceAddress := field_of body ServiceAddress,
                          actionSubject := field_of body ActionSubject,
                          userContext := field_of body UserContext,
                          params := field_of body Params \<rparr>)
              else Inr s1))"

text \<open>\<^verbatim>\<open>prepareSuccessResponse\<close>, index.ts lines 369-378.\<close>

definition prepareSuccessResponse :: "js_env \<Rightarrow> session \<Rightarrow> jsval \<Rightarrow> jsval" where
  "prepareSuccessResponse env s successResponse =
     (if truthy (useBody s) then
        JObj [(''statusCode'', JNum (Fin 200)), (''body'', JSON_stringify env successResponse)]
      else successResponse)"

text \<open>\<^verbatim>\<open>prepareErrorResponse\<close>, index.ts lines 390-399.\<close>

definition prepareErrorResponse :: "js_env \<Rightarrow> session \<Rightarrow> jsval \<Rightarrow> jsval" where
  "prepareErrorResponse env s errorMessage =
     (if truthy (useBody s) then
        JObj [(''statusCode'', JNum (Fin 400)),
              (''body'', JSON_stringify env (JObj [(''errorMessage'', errorMessage)]))]
      else JObj [(''errorMessage'', errorMessage), (''responseType'', JStr ''error'')])"

section \<open>Data access\<close>

text \<open>
  The effects of a data-access call are the line it writes to the console and the
  request it hands to \<^verbatim>\<open>axios\<close>. The remote service is a parameter: it answers a request
  with the parsed body of the response (\<^verbatim>\<open>response.data\<close>) or with the failure
  that rejects the promise.
\<close>

record http_request =
  http_method :: string
  url :: string
  data :: jsval
  headers :: "(string \<times> string) list"

record world =
  console :: "string list"
  requests :: "http_request list"

type_synonym service = "http_request \<Rightarrow> error + jsval"

text \<open>\<^verbatim>\<open>opts?.bypassValidation\<close>: \<^verbatim>\<open>undefined\<close> when \<open>opts\<close> is \<^verbatim>\<open>null\<close> or \<^verbatim>\<open>undefined\<close>.\<close>

definition optional_chain :: "jsval \<Rightarrow> field \<Rightarrow> jsval" where
  "optional_chain v f = (if v = JUndefined \<or> v = JNull then JUndefined else field_of v f)"

text \<open>
  \<^verbatim>\<open>saveRelatedObject\<close>, index.ts lines 216-230. The template literal of the URL
  converts the service address and the sandbox key to strings, the concatenation of the
  console line and the template literal of the header convert the token; a conversion
  that throws ends the call before anything is logged or sent.
\<close>

definition saveRelatedObject ::
  "js_env \<Rightarrow> service \<Rightarrow> session \<Rightarrow> world \<Rightarrow> string \<Rightarrow> string \<Rightarrow> string \<Rightarrow> jsval \<Rightarrow> jsval
     \<Rightarrow> world \<times> (error + jsval)" where
  "saveRelatedObject env service s w parentElementId parentKey elementId objectToSave opts =
     (case to_string env (serviceAddress s) of
        Inl e \<Rightarrow> (w, Inl e)
      | Inr address \<Rightarrow>
          (case to_string env (sandboxKey s) of
             Inl e \<Rightarrow> (w, Inl e)
           | Inr sandbox \<Rightarrow>
               (let url0 = address @ ''/schema/sandboxes/'' @ sandbox
                           @ ''/'' @ parentElementId @ ''/'' @ parentKey @ ''/'' @ elementId;
                    url1 = (if truthy (optional_chain opts BypassValidation)
                            then url0 @ ''?bypassValidation=true'' else url0)
                in case to_string env (authToken s) of
                     Inl e \<Rightarrow> (w, Inl e)
                   | Inr token \<Rightarrow>
                       (let w1 = w\<lparr>console := console w
                                     @ [''Sending POST request to '' @ url1 @ '' with token '' @ token]\<rparr>;
                            request = \<lparr> http_method = ''POST'', url = url1, data = objectToSave,
                                        headers = [(''Authorization'', ''Bearer '' @ token)] \<rparr>;
                            w2 = w1\<lparr>requests := requests w1 @ [request]\<rparr>
                        in (w2, case service request of
                                  Inl e \<Rightarrow> Inl e
                                | Inr response_data \<Rightarrow> Inr response_data)))))"

text \<open>A session after a call of \<^verbatim>\<open>initialize\<close>.\<close>

definition example_session :: session where
  "example_session =
     module_loaded\<lparr>authToken := JStr ''tok'', sandboxKey := JStr ''sb'',
                   serviceAddress := JStr ''https://svc''\<rparr>"

section \<open>A sample host\<close>

text \<open>
  A host to evaluate the definitions at concrete inputs: strings are collated by code
  units, an integer is written in decimal digits and read back from them, plain objects
  inherit the members of \<^verbatim>\<open>Object.prototype\<close>, and the sort is the insertion sort.
\<close>

definition digit_char :: "nat \<Rightarrow> char" where
  "digit_char d = char_of (48 + d)"

fun string_of_nat :: "nat \<Rightarrow> string" where
  "string_of_nat n =
     (if n < 10 then [digit_char n] else string_of_nat (n div 10) @ [digit_char (n mod 10)])"

definition string_of_int :: "int \<Rightarrow> string" where
  "string_of_int i = (if i < 0 then CHR ''-'' # string_of_nat (nat (- i)) else string_of_nat (nat i))"

definition number_of_digits :: "string \<Rightarrow> jsnum" where
  "number_of_digits s =
     (let neg = (s \<noteq> [] \<and> hd s = CHR ''-'');
          ds = (if neg then tl s else s);
          n = int (foldl (\<lambda>acc c. 10 * acc + digit_val c) 0 ds)
      in if s = [] then Fin 0
         else if ds \<noteq> [] \<and> list_all is_digit ds then Fin (of_int (if neg then - n else n))
         else NaN)"

definition object_prototype_names :: "string list" where
  "object_prototype_names =
     [''constructor'', ''hasOwnProperty'', ''isPrototypeOf'', ''propertyIsEnumerable'',
      ''toLocaleString'', ''toString'', ''valueOf'', ''__proto__'', ''__defineGetter__'',
      ''__defineSetter__'', ''__lookupGetter__'', ''__lookupSetter__'']"

definition sample_env :: js_env where
  "sample_env =
     \<lparr> localeCompare = (\<lambda>a b. if str_lt a b then - 1 else if str_lt b a then 1 else 0),
       StringToNumber = number_of_digits,
       NumberToString = (\<lambda>q. if of_int \<lfloor>q\<rfloor> = q then string_of_int \<lfloor>q\<rfloor> else []),
       Inherits = (\<lambda>v k. k \<in> set object_prototype_names),
       ArraySort = insertion_sort \<rparr>"

section \<open>Properties of attribute path resolution\<close>

lemma split_on_cons: "c \<notin> set seg \<Longrightarrow> split_on c (seg @ c # rest) = seg # split_on c rest"
  by (induction seg) auto

lemma split_on_single: "c \<notin> set seg \<Longrightarrow> split_on c seg = [seg]"
  by (induction seg) auto

lemma walk_components_falsy: "\<not> truthy v \<Longrightarrow> walk_components env v segs = Returns v"
  by (induction segs) auto

lemma component_field_plain: "CHR '':'' \<notin> set seg \<Longrightarrow> component_field seg = seg"
  by (simp add: component_field_def split_on_single)

lemma result_case_same:
  "(case r of Returns v \<Rightarrow> Returns v | Throws e \<Rightarrow> Throws e | Builtin \<Rightarrow> Builtin) = r"
  by (cases r) simp_all

lemma get_member_JObj:
  "get_member env (JObj kvs) k =
     (case map_of kvs k of
        Some x \<Rightarrow> Returns x
      | None \<Rightarrow> if Inherits env (JObj kvs) k then Builtin else Returns JUndefined)"
  by (simp add: get_member_def)

text \<open>
  Claim C4. A falsy value is returned as it is, whatever is left of the path, and
  nothing is read from it. On a truthy value, a first segment without a colon reads the
  member of that name, and the rest of the path is resolved from the value read. The
  member of an object is its own property of that name when it has one; for another
  name it is \<^verbatim>\<open>undefined\<close>, unless the name is that of a member the object inherits
  from a built-in prototype. The three examples of the specification: \<^verbatim>\<open>{a:{b:5}}\<close> gives
  5 at \<^verbatim>\<open>a.b\<close> and \<^verbatim>\<open>undefined\<close> at \<^verbatim>\<open>a.c\<close> (no object inherits a member \<^verbatim>\<open>c\<close>);
  \<^verbatim>\<open>{a: null}\<close> gives \<^verbatim>\<open>null\<close> at \<^verbatim>\<open>a.b.c\<close>.
\<close>

theorem getValueFromObject_walk:
  "(\<not> truthy v \<longrightarrow> getValueFromObject env v attribute = Returns v)
   \<and> (truthy v \<and> CHR ''.'' \<notin> set seg \<and> CHR '':'' \<notin> set seg \<longrightarrow>
        getValueFromObject env v seg = get_member env v seg
        \<and> getValueFromObject env v (seg @ CHR ''.'' # rest)
            = (case get_member env v seg of
                 Returns v' \<Rightarrow> getValueFromObject env v' rest
               | Throws e \<Rightarrow> Throws e
               | Builtin \<Rightarrow> Builtin))
   \<and> (map_of kvs seg = Some x \<longrightarrow> get_member env (JObj kvs) seg = Returns x)
   \<and> (map_of kvs seg = None \<and> \<not> Inherits env (JObj kvs) seg \<longrightarrow>
        get_member env (JObj kvs) seg = Returns JUndefined)
   \<and> (map_of kvs seg = None \<and> Inherits env (JObj kvs) seg \<longrightarrow>
        get_member env (JObj kvs) seg = Builtin)
   \<and> getValueFromObject env (JObj [(''a'', JObj [(''b'', JNum (Fin 5))])]) ''a.b''
       = Returns (JNum (Fin 5))
   \<and> (\<not> Inherits env (JObj [(''b'', JNum (Fin 5))]) ''c'' \<longrightarrow>
        getValueFromObject env (JObj [(''a'', JObj [(''b'', JNum (Fin 5))])]) ''a.c''
          = Returns JUndefined)
   \<and> getValueFromObject env (JObj [(''a'', JNull)]) ''a.b.c'' = Returns JNull"
proof (intro conjI impI)
  assume "\<not> truthy v"
  then show "getValueFromObject env v attribute = Returns v"
    unfolding getValueFromObject_def by (rule walk_components_falsy)
next
  assume h: "truthy v \<and> CHR ''.'' \<notin> set seg \<and> CHR '':'' \<notin> set seg"
  then have f: "component_field seg = seg"
    by (simp add: component_field_plain)
  from h f show "getValueFromObject env v seg = get_member env v seg"
    by (simp add: getValueFromObject_def split_on_single split: result.splits)
next
  assume h: "truthy v \<and> CHR ''.'' \<notin> set seg \<and> CHR '':'' \<notin> set seg"
  then have f: "component_field seg = seg"
    by (simp add: component_field_plain)
  from h f show "getValueFromObject env v (seg @ CHR ''.'' # rest)
            = (case get_member env v seg of
                 Returns v' \<Rightarrow> getValueFromObject env v' rest
               | Throws e \<Rightarrow> Throws e
               | Builtin \<Rightarrow> Builtin)"
    by (simp add: getValueFromObject_def split_on_cons split: result.splits)
next
  assume "map_of kvs seg = Some x"
  then show "get_member env (JObj kvs) seg = Returns x"
    by (simp add: get_member_JObj)
next
  assume "map_of kvs seg = None \<and> \<not> Inherits env (JObj kvs) seg"
  then show "get_member env (JObj kvs) seg = Returns JUndefined"
    by (simp add: get_member_JObj)
next
  assume "map_of kvs seg = None \<and> Inherits env (JObj kvs) seg"
  then show "get_member env (JObj kvs) seg = Builtin"
    by (simp add: get_member_JObj)
next
  show "getValueFromObject env (JObj [(''a'', JObj [(''b'', JNum (Fin 5))])]) ''a.b''
       = Returns (JNum (Fin 5))"
    by (simp add: getValueFromObject_def component_field_def get_member_JObj)
next
  assume "\<not> Inherits env (JObj [(''b'', JNum (Fin 5))]) ''c''"
  then show "getValueFromObject env (JObj [(''a'', JObj [(''b'', JNum (Fin 5))])]) ''a.c''
          = Returns JUndefined"
    by (simp add: getValueFromObject_def component_field_def get_member_JObj)
next
  show "getValueFromObject env (JObj [(''a'', JNull)]) ''a.b.c'' = Returns JNull"
    by (simp add: getValueFromObject_def component_field_def get_member_JObj)
qed

theorem getValueFromObject_walk_witness:
  "\<not> truthy JNull
   \<and> getValueFromObject sample_env JNull ''b.c'' = Returns JNull
   \<and> \<not> truthy (JStr '''')
   \<and> getValueFromObject sample_env (JStr '''') ''length'' = Returns (JStr '''')
   \<and> truthy (JObj [(''a'', JObj [(''b'', JNum (Fin 5))])])
   \<and> CHR ''.'' \<notin> set ''a'' \<and> CHR '':'' \<notin> set ''a''
   \<and> getValueFromObject sample_env (JObj [(''a'', JObj [(''b'', JNum (Fin 5))])]) ''a''
       = Returns (JObj [(''b'', JNum (Fin 5))])
   \<and> getValueFromObject sample_env (JObj [(''a'', JObj [(''b'', JNum (Fin 5))])]) ''a.b''
       = getValueFromObject sample_env (JObj [(''b'', JNum (Fin 5))]) ''b''
   \<and> map_of [(''b'', JNum (Fin 5))] ''b'' = Some (JNum (Fin 5))
   \<and> get_member sample_env (JObj [(''b'', JNum (Fin 5))]) ''b'' = Returns (JNum (Fin 5))
   \<and> map_of [(''b'', JNum (Fin 5))] ''c'' = None
   \<and> \<not> Inherits sample_env (JObj [(''b'', JNum (Fin 5))]) ''c''
   \<and> get_member sample_env (JObj [(''b'', JNum (Fin 5))]) ''c'' = Returns JUndefined
   \<and> getValueFromObject sample_env (JObj [(''a'', JObj [(''b'', JNum (Fin 5))])]) ''a.c''
       = Returns JUndefined
   \<and> map_of [(''b'', JNum (Fin 5))] ''constructor'' = None
   \<and> Inherits sample_env (JObj [(''b'', JNum (Fin 5))]) ''constructor''
   \<and> get_member sample_env (JObj [(''b'', JNum (Fin 5))]) ''constructor'' = Builtin
   \<and> getValueFromObject sample_env (JObj [(''b'', JNum (Fin 5))]) ''constructor.name'' = Builtin"
proof -
  let ?inner = "[(''b'', JNum (Fin 5))]"
  let ?outer = "JObj [(''a'', JObj ?inner)]"
  have i1: "\<not> Inherits sample_env (JObj ?inner) ''c''"
    by (simp add: sample_env_def object_prototype_names_def)
  have i2: "Inherits sample_env (JObj ?inner) ''constructor''"
    by (simp add: sample_env_def object_prototype_names_def)
  note t1 = getValueFromObject_walk [of JNull sample_env "''b.c''" "''b''" "''c''" ?inner "JNum (Fin 5)"]
  note t2 = getValueFromObject_walk [of "JStr ''''" sample_env "''length''" "''c''" "''b''" ?inner JNull]
  note t3 = getValueFromObject_walk [of ?outer sample_env "''a''" "''a''" "''b''" "[(''a'', JObj ?inner)]" "JObj ?inner"]
  note t4 = getValueFromObject_walk [of "JObj ?inner" sample_env "''a''" "''constructor''" "''name''" ?inner JNull]
  show ?thesis
    using t1 t2 t3 t4 i1 i2 by simp
qed

text \<open>
  Claim C2. A segment with a colon reads the field
  \<^verbatim>\<open>compSplit[1].replace("Key", "")\<close>, and \<^verbatim>\<open>replace\<close> with a string pattern removes
  the first \<^verbatim>\<open>Key\<close> of the second component, which need not be the trailing
  one. For the path \<^verbatim>\<open>rel:KeyOwnerKey\<close> the code reads the member \<^verbatim>\<open>OwnerKey\<close> of
  \<^verbatim>\<open>{KeyOwner: {name: "X"}}\<close>, which is not the value \<^verbatim>\<open>{name: "X"}\<close> on any host and
  is \<^verbatim>\<open>undefined\<close> on the sample host, where the field without the trailing \<^verbatim>\<open>Key\<close> is
  \<^verbatim>\<open>KeyOwner\<close> and holds \<^verbatim>\<open>{name: "X"}\<close>. The example of the specification, whose only
  \<^verbatim>\<open>Key\<close> is the trailing one, resolves as stated.
\<close>

theorem getValueFromObject_Key_not_trailing:
  "component_field ''rel:KeyOwnerKey'' = ''OwnerKey''
   \<and> strip_trailing_Key ''KeyOwnerKey'' = ''KeyOwner''
   \<and> getValueFromObject sample_env (JObj [(''KeyOwner'', JObj [(''name'', JStr ''X'')])]) ''rel:KeyOwnerKey''
       = Returns JUndefined
   \<and> getValueFromObject env (JObj [(''KeyOwner'', JObj [(''name'', JStr ''X'')])]) ''rel:KeyOwnerKey''
       = get_member env (JObj [(''KeyOwner'', JObj [(''name'', JStr ''X'')])]) ''OwnerKey''
   \<and> getValueFromObject env (JObj [(''KeyOwner'', JObj [(''name'', JStr ''X'')])]) ''rel:KeyOwnerKey''
       \<noteq> Returns (JObj [(''name'', JStr ''X'')])
   \<and> get_member env (JObj [(''KeyOwner'', JObj [(''name'', JStr ''X'')])]) (strip_trailing_Key ''KeyOwnerKey'')
       = Returns (JObj [(''name'', JStr ''X'')])
   \<and> getValueFromObject env (JObj [(''ownerAccountMember'', JObj [(''name'', JStr ''X'')])])
        ''accountMember:ownerAccountMemberKey'' = Returns (JObj [(''name'', JStr ''X'')])"
  by (simp add: getValueFromObject_def component_field_def strip_trailing_Key_def get_member_JObj
      sample_env_def object_prototype_names_def)

lemma replace_first_Key_suffix:
  "CHR ''K'' \<notin> set name \<Longrightarrow> replace_first ''Key'' [] (name @ ''Key'') = name"
  by (induction name) auto

lemma strip_trailing_Key_suffix: "strip_trailing_Key (name @ ''Key'') = name"
  by (simp add: strip_trailing_Key_def)

text \<open>
  Where the code and the rule of the specification agree: when the second component is
  a name followed by \<^verbatim>\<open>Key\<close> and the name has no capital K, the first \<^verbatim>\<open>Key\<close> is the
  trailing one, and the segment reads the member of that name.
\<close>

lemma getValueFromObject_relationship_key:
  "truthy object \<and> CHR ''.'' \<notin> set rel \<and> CHR '':'' \<notin> set rel
     \<and> CHR ''.'' \<notin> set name \<and> CHR '':'' \<notin> set name \<and> CHR ''K'' \<notin> set name \<longrightarrow>
   component_field (rel @ '':'' @ name @ ''Key'') = name
   \<and> strip_trailing_Key (name @ ''Key'') = name
   \<and> getValueFromObject env object (rel @ '':'' @ name @ ''Key'') = get_member env object name"
proof
  assume h: "truthy object \<and> CHR ''.'' \<notin> set rel \<and> CHR '':'' \<notin> set rel
     \<and> CHR ''.'' \<notin> set name \<and> CHR '':'' \<notin> set name \<and> CHR ''K'' \<notin> set name"
  let ?component = "rel @ CHR '':'' # name @ ''Key''"
  from h have "CHR '':'' \<notin> set (name @ ''Key'')" by simp
  then have "split_on CHR '':'' (name @ ''Key'') = [name @ ''Key'']"
    by (rule split_on_single)
  with h have sp: "split_on CHR '':'' ?component = [rel, name @ ''Key'']"
    using split_on_cons [of "CHR '':''" rel "name @ ''Key''"] by simp
  from h have f: "component_field ?component = name"
    by (simp add: component_field_def sp replace_first_Key_suffix Let_def del: replace_first.simps)
  from h have "CHR ''.'' \<notin> set ?component" by simp
  then have dots: "split_on CHR ''.'' ?component = [?component]"
    by (rule split_on_single)
  from h f have g: "getValueFromObject env object ?component = get_member env object name"
    by (simp add: getValueFromObject_def dots del: append.simps split: result.splits)
  from f g show "component_field (rel @ '':'' @ name @ ''Key'') = name
   \<and> strip_trailing_Key (name @ ''Key'') = name
   \<and> getValueFromObject env object (rel @ '':'' @ name @ ''Key'') = get_member env object name"
    by (simp add: strip_trailing_Key_suffix)
qed

section \<open>Properties of compareValues\<close>

lemma num_lt_NaN_right [simp]: "num_lt x NaN = False"
  by (cases x) simp_all

text \<open>
  Claim C1, as the specification states it, has \<^verbatim>\<open>compareValues("x", "", true, true)\<close>
  return 1. The code returns -1 there: the first value is present, the second is not.
\<close>

theorem compareValues_presence_counterexample:
  "compareValues sample_env (JStr ''x'') (JStr '''') True True \<noteq> Inr 1"
  by (simp add: compareValues_def)

text \<open>
  Claim C1, amended. With \<open>caseInsensitive\<close> set and a string as first value: when
  exactly one of the two values is falsy, the falsy one sorts after the truthy one
  whatever the descending flag (-1 when the second value is the falsy one, 1 when the
  first is), and two falsy values compare 0. So \<^verbatim>\<open>compareValues("", "x", false, true)\<close>
  is 1 and \<^verbatim>\<open>compareValues("x", "", true, true)\<close> is -1.
\<close>

theorem compareValues_presence_rule:
  "(is_string a \<and> truthy a \<and> \<not> truthy b \<longrightarrow> compareValues env a b desc True = Inr (- 1))
   \<and> (is_string a \<and> \<not> truthy a \<and> truthy b \<longrightarrow> compareValues env a b desc True = Inr 1)
   \<and> (is_string a \<and> \<not> truthy a \<and> \<not> truthy b \<longrightarrow> compareValues env a b desc True = Inr 0)
   \<and> compareValues env (JStr '''') (JStr ''x'') False True = Inr 1
   \<and> compareValues env (JStr ''x'') (JStr '''') True True = Inr (- 1)"
  by (simp add: compareValues_def)

theorem compareValues_presence_rule_witness:
  "is_string (JStr ''x'') \<and> truthy (JStr ''x'') \<and> \<not> truthy JNull
   \<and> compareValues sample_env (JStr ''x'') JNull True True = Inr (- 1)
   \<and> compareValues sample_env (JStr ''x'') JNull False True = Inr (- 1)
   \<and> is_string (JStr '''') \<and> \<not> truthy (JStr '''') \<and> truthy (JNum (Fin 7))
   \<and> compareValues sample_env (JStr '''') (JNum (Fin 7)) True True = Inr 1
   \<and> compareValues sample_env (JStr '''') (JNum (Fin 7)) False True = Inr 1
   \<and> \<not> truthy JUndefined
   \<and> compareValues sample_env (JStr '''') JUndefined True True = Inr 0"
  using compareValues_presence_rule [of "JStr ''x''" JNull sample_env True]
    compareValues_presence_rule [of "JStr ''x''" JNull sample_env False]
    compareValues_presence_rule [of "JStr ''''" "JNum (Fin 7)" sample_env True]
    compareValues_presence_rule [of "JStr ''''" "JNum (Fin 7)" sample_env False]
    compareValues_presence_rule [of "JStr ''''" JUndefined sample_env True]
  by simp

lemmas eval_relational = compareValues_def js_lt_def js_gt_def prim_lt_def

text \<open>
  Claim C10. Only the type of the first value selects the branch for strings. With
  \<open>caseInsensitive\<close> set, a first value that is not a string is compared with a string
  by the relational operators, exactly as without the flag: \<^verbatim>\<open>valueA < valueB\<close> first,
  \<^verbatim>\<open>valueA > valueB\<close> when that is false, and an exception of either is the outcome of
  the call. So 10 against \<^verbatim>\<open>"9"\<close> compares as numbers, and an object with an own
  property \<^verbatim>\<open>toString\<close> throws a \<^verbatim>\<open>TypeError\<close>. The comparison is not antisymmetric in
  its arguments: \<^verbatim>\<open>undefined\<close> against \<^verbatim>\<open>"x"\<close> is 0, and \<^verbatim>\<open>"x"\<close> against
  \<^verbatim>\<open>undefined\<close> is -1.
\<close>

theorem compareValues_first_argument_type:
  "(\<not> is_string a \<longrightarrow>
      compareValues env a (JStr s) desc True
        = (case js_lt env a (JStr s) of
             Inl e \<Rightarrow> Inl e
           | Inr lt \<Rightarrow>
               if lt then Inr (if desc then 1 else - 1)
               else (case js_gt env a (JStr s) of
                       Inl e \<Rightarrow> Inl e
                     | Inr gt \<Rightarrow> Inr (if gt then (if desc then - 1 else 1) else 0)))
      \<and> compareValues env a (JStr s) desc True = compareValues env a (JStr s) desc False)
   \<and> (StringToNumber env ''9'' = Fin 9 \<longrightarrow>
        js_lt env (JNum (Fin 10)) (JStr ''9'') = Inr False
        \<and> js_gt env (JNum (Fin 10)) (JStr ''9'') = Inr True
        \<and> compareValues env (JNum (Fin 10)) (JStr ''9'') False True = Inr 1
        \<and> compareValues env (JNum (Fin 10)) (JStr ''9'') True True = Inr (- 1))
   \<and> compareValues env (JStr ''10'') (JStr ''9'') False False = Inr (- 1)
   \<and> compareValues env (JObj []) (JStr ''x'') False True = Inr (- 1)
   \<and> compareValues env (JObj [(''toString'', JNum (Fin 1))]) (JStr ''x'') desc True = Inl TypeError
   \<and> compareValues env JUndefined (JStr ''x'') desc True = Inr 0
   \<and> compareValues env (JStr ''x'') JUndefined desc True = Inr (- 1)
   \<and> (\<exists>a b d x y. compareValues env a b d True = Inr x
          \<and> compareValues env b a d True = Inr y \<and> x \<noteq> - y)"
proof (intro conjI impI)
  assume "\<not> is_string a"
  then show "compareValues env a (JStr s) desc True
        = (case js_lt env a (JStr s) of
             Inl e \<Rightarrow> Inl e
           | Inr lt \<Rightarrow>
               if lt then Inr (if desc then 1 else - 1)
               else (case js_gt env a (JStr s) of
                       Inl e \<Rightarrow> Inl e
                     | Inr gt \<Rightarrow> Inr (if gt then (if desc then - 1 else 1) else 0)))"
    by (simp add: compareValues_def split: sum.splits)
next
  assume "\<not> is_string a"
  then show "compareValues env a (JStr s) desc True = compareValues env a (JStr s) desc False"
    by (simp add: compareValues_def)
next
  assume "StringToNumber env ''9'' = Fin 9"
  then show "js_lt env (JNum (Fin 10)) (JStr ''9'') = Inr False"
    by (simp add: eval_relational)
next
  assume "StringToNumber env ''9'' = Fin 9"
  then show "js_gt env (JNum (Fin 10)) (JStr ''9'') = Inr True"
    by (simp add: eval_relational)
next
  assume "StringToNumber env ''9'' = Fin 9"
  then show "compareValues env (JNum (Fin 10)) (JStr ''9'') False True = Inr 1"
    by (simp add: eval_relational)
next
  assume "StringToNumber env ''9'' = Fin 9"
  then show "compareValues env (JNum (Fin 10)) (JStr ''9'') True True = Inr (- 1)"
    by (simp add: eval_relational)
next
  show "compareValues env (JStr ''10'') (JStr ''9'') False False = Inr (- 1)"
    by (simp add: eval_relational)
next
  show "compareValues env (JObj []) (JStr ''x'') False True = Inr (- 1)"
    by (simp add: eval_relational)
next
  show "compareValues env (JObj [(''toString'', JNum (Fin 1))]) (JStr ''x'') desc True = Inl TypeError"
    by (simp add: eval_relational)
next
  show "compareValues env JUndefined (JStr ''x'') desc True = Inr 0"
    by (simp add: eval_relational)
next
  show "compareValues env (JStr ''x'') JUndefined desc True = Inr (- 1)"
    by (simp add: compareValues_def)
next
  have "compareValues env JUndefined (JStr ''x'') False True = Inr 0"
    by (simp add: eval_relational)
  moreover have "compareValues env (JStr ''x'') JUndefined False True = Inr (- 1)"
    by (simp add: compareValues_def)
  moreover have "(0::int) \<noteq> - (- 1)" by simp
  ultimately show "\<exists>a b d x y. compareValues env a b d True = Inr x
          \<and> compareValues env b a d True = Inr y \<and> x \<noteq> - y"
    by blast
qed

lemma sample_nine: "StringToNumber sample_env ''9'' = Fin 9"
  by (simp add: sample_env_def number_of_digits_def is_digit_def digit_val_def)

theorem compareValues_first_argument_type_witness:
  "\<not> is_string (JNum (Fin 10))
   \<and> StringToNumber sample_env ''9'' = Fin 9
   \<and> compareValues sample_env (JNum (Fin 10)) (JStr ''9'') False True = Inr 1
   \<and> compareValues sample_env (JNum (Fin 10)) (JStr ''9'') True True = Inr (- 1)
   \<and> compareValues sample_env (JNum (Fin 10)) (JStr ''9'') False True
       = compareValues sample_env (JNum (Fin 10)) (JStr ''9'') False False
   \<and> \<not> is_string (JObj [(''toString'', JNum (Fin 1))])
   \<and> js_lt sample_env (JObj [(''toString'', JNum (Fin 1))]) (JStr ''x'') = Inl TypeError
   \<and> compareValues sample_env (JObj [(''toString'', JNum (Fin 1))]) (JStr ''x'') False False
       = Inl TypeError
   \<and> \<not> is_string (JArr [JNum (Fin 1), JObj [(''toString'', JNull)]])
   \<and> compareValues sample_env (JArr [JNum (Fin 1), JObj [(''toString'', JNull)]]) (JStr ''x'') False True
       = Inl TypeError"
proof -
  have a: "js_lt sample_env (JObj [(''toString'', JNum (Fin 1))]) (JStr ''x'') = Inl TypeError"
    by (simp add: js_lt_def)
  have b: "js_lt sample_env (JArr [JNum (Fin 1), JObj [(''toString'', JNull)]]) (JStr ''x'') = Inl TypeError"
    by (simp add: js_lt_def)
  show ?thesis
    using compareValues_first_argument_type [of "JNum (Fin 10)" sample_env "''9''" False]
      compareValues_first_argument_type [of "JNum (Fin 10)" sample_env "''9''" True]
      compareValues_first_argument_type [of "JObj [(''toString'', JNum (Fin 1))]" sample_env "''x''" False]
      compareValues_first_argument_type [of "JArr [JNum (Fin 1), JObj [(''toString'', JNull)]]" sample_env "''x''" False]
      sample_nine a b
    by simp
qed

section \<open>Properties of the session initializer\<close>

lemma field_of_JObj:
  "field_of (JObj kvs) f = (case map_of kvs (field_name f) of None \<Rightarrow> JUndefined | Some v \<Rightarrow> v)"
  by (simp add: field_of_def)


lemma initialize_useBody_cases:
  "initialize s event = Inr s' \<Longrightarrow> useBody s' = useBody s \<or> useBody s' = JBool True"
  by (auto simp: initialize_def Let_def split: sum.splits if_splits)



text \<open>
  Claim C9. A call of \<^verbatim>\<open>initialize\<close> that returns leaves \<open>useBody\<close> at its old value
  or sets it to \<^verbatim>\<open>true\<close>. For an event without a body the flag keeps the value it had
  while the six session fields are assigned from the event. So after an event with a
  body, a second call with a top-level event leaves the flag \<^verbatim>\<open>true\<close>, and
  \<^verbatim>\<open>prepareSuccessResponse\<close> still wraps its argument.
\<close>

theorem initialize_useBody_frame:
  "(initialize s event = Inr s' \<longrightarrow> useBody s' = useBody s \<or> useBody s' = JBool True)
   \<and> (\<not> truthy (field_of (JObj kvs) Body) \<longrightarrow>
        (\<exists>s2. initialize s (JObj kvs) = Inr s2
           \<and> useBody s2 = useBody s
           \<and> authToken s2 = field_of (JObj kvs) AuthToken
           \<and> sandboxKey s2 = field_of (JObj kvs) SandboxKey
           \<and> serviceAddress s2 = field_of (JObj kvs) ServiceAddress
           \<and> actionSubject s2 = field_of (JObj kvs) ActionSubject
           \<and> userContext s2 = field_of (JObj kvs) UserContext
           \<and> params s2 = field_of (JObj kvs) Params))
   \<and> (map_of wrapped ''body'' = Some (JObj inner) \<and> map_of kvs ''body'' = None \<longrightarrow>
        (\<exists>s1 s2. initialize s (JObj wrapped) = Inr s1
           \<and> initialize s1 (JObj kvs) = Inr s2
           \<and> useBody s2 = JBool True
           \<and> authToken s2 = field_of (JObj kvs) AuthToken
           \<and> prepareSuccessResponse env s2 x
               = JObj [(''statusCode'', JNum (Fin 200)), (''body'', JSON_stringify env x)]))"
proof (intro conjI impI)
  assume "initialize s event = Inr s'"
  then show "useBody s' = useBody s \<or> useBody s' = JBool True"
    by (rule initialize_useBody_cases)
next
  assume "\<not> truthy (field_of (JObj kvs) Body)"
  then show "\<exists>s2. initialize s (JObj kvs) = Inr s2
           \<and> useBody s2 = useBody s
           \<and> authToken s2 = field_of (JObj kvs) AuthToken
           \<and> sandboxKey s2 = field_of (JObj kvs) SandboxKey
           \<and> serviceAddress s2 = field_of (JObj kvs) ServiceAddress
           \<and> actionSubject s2 = field_of (JObj kvs) ActionSubject
           \<and> userContext s2 = field_of (JObj kvs) UserContext
           \<and> params s2 = field_of (JObj kvs) Params"
    by (simp add: initialize_def Let_def field_of_JObj)
next
  assume h: "map_of wrapped ''body'' = Some (JObj inner) \<and> map_of kvs ''body'' = None"
  then have w: "truthy (field_of (JObj wrapped) Body)"
    by (simp add: field_of_JObj)
  from h have t: "\<not> truthy (field_of (JObj kvs) Body)"
    by (simp add: field_of_JObj)
  from w obtain s1 where s1: "initialize s (JObj wrapped) = Inr s1" "useBody s1 = JBool True"
    by (simp add: initialize_def Let_def field_of_JObj)
  from t obtain s2 where s2: "initialize s1 (JObj kvs) = Inr s2" "useBody s2 = useBody s1"
    "authToken s2 = field_of (JObj kvs) AuthToken"
    by (simp add: initialize_def Let_def field_of_JObj)
  from s1 s2 have "prepareSuccessResponse env s2 x
               = JObj [(''statusCode'', JNum (Fin 200)), (''body'', JSON_stringify env x)]"
    by (simp add: prepareSuccessResponse_def)
  with s1 s2 show "\<exists>s1 s2. initialize s (JObj wrapped) = Inr s1
           \<and> initialize s1 (JObj kvs) = Inr s2
           \<and> useBody s2 = JBool True
           \<and> authToken s2 = field_of (JObj kvs) AuthToken
           \<and> prepareSuccessResponse env s2 x
               = JObj [(''statusCode'', JNum (Fin 200)), (''body'', JSON_stringify env x)]"
    by simp
qed

theorem initialize_useBody_frame_witness:
  "initialize module_loaded (JObj [(''body'', JObj [(''authToken'', JStr ''T1'')])])
     = Inr (module_loaded\<lparr>authToken := JStr ''T1'', useBody := JBool True\<rparr>)
   \<and> \<not> truthy (field_of (JObj [(''authToken'', JStr ''T2'')]) Body)
   \<and> map_of [(''body'', JObj [(''authToken'', JStr ''T1'')])] ''body'' = Some (JObj [(''authToken'', JStr ''T1'')])
   \<and> map_of [(''authToken'', JStr ''T2'')] ''body'' = None
   \<and> (\<exists>s2. initialize (module_loaded\<lparr>authToken := JStr ''T1'', useBody := JBool True\<rparr>)
                (JObj [(''authToken'', JStr ''T2'')]) = Inr s2
          \<and> useBody s2 = JBool True \<and> authToken s2 = JStr ''T2'')
   \<and> (\<exists>s1 s2. initialize module_loaded (JObj [(''body'', JObj [(''authToken'', JStr ''T1'')])]) = Inr s1
          \<and> initialize s1 (JObj [(''authToken'', JStr ''T2'')]) = Inr s2
          \<and> useBody s2 = JBool True
          \<and> authToken s2 = JStr ''T2''
          \<and> prepareSuccessResponse sample_env s2 JNull
               = JObj [(''statusCode'', JNum (Fin 200)), (''body'', JStr ''null'')])"
proof -
  let ?s1 = "module_loaded\<lparr>authToken := JStr ''T1'', useBody := JBool True\<rparr>"
  have a: "initialize module_loaded (JObj [(''body'', JObj [(''authToken'', JStr ''T1'')])]) = Inr ?s1"
    by (simp add: initialize_def Let_def field_of_JObj module_loaded_def)
  have b: "\<not> truthy (field_of (JObj [(''authToken'', JStr ''T2'')]) Body)"
    by (simp add: field_of_JObj)
  have c: "map_of [(''body'', JObj [(''authToken'', JStr ''T1'')])] ''body'' = Some (JObj [(''authToken'', JStr ''T1'')])
           \<and> map_of [(''authToken'', JStr ''T2'')] ''body'' = None"
    by simp
  have d: "field_of (JObj [(''authToken'', JStr ''T2'')]) AuthToken = JStr ''T2''"
    by (simp add: field_of_JObj)
  have e: "JSON_stringify sample_env JNull = JStr ''null''"
    by (simp add: JSON_stringify_def)
  note t = initialize_useBody_frame [of ?s1 "JObj [(''authToken'', JStr ''T2'')]" ?s1
      "[(''authToken'', JStr ''T2'')]" "[(''body'', JObj [(''authToken'', JStr ''T1'')])]"
      "[(''authToken'', JStr ''T1'')]" sample_env JNull]
  from t b have f: "\<exists>s2. initialize ?s1 (JObj [(''authToken'', JStr ''T2'')]) = Inr s2
          \<and> useBody s2 = JBool True \<and> authToken s2 = JStr ''T2''"
    using d by auto
  show ?thesis using a b c f d e
      initialize_useBody_frame [of module_loaded "JObj [(''authToken'', JStr ''T2'')]" module_loaded
      "[(''authToken'', JStr ''T2'')]" "[(''body'', JObj [(''authToken'', JStr ''T1'')])]"
      "[(''authToken'', JStr ''T1'')]" sample_env JNull]
    by simp
qed

section \<open>Properties of the response formatters\<close>

text \<open>
  Claim C6. \<^verbatim>\<open>prepareErrorResponse\<close> has no path that throws: for a string message it
  returns the object with the properties \<^verbatim>\<open>errorMessage\<close> and \<^verbatim>\<open>responseType: "error"\<close>
  when \<open>useBody\<close> is not set, and the status code 400 with the JSON text of
  \<^verbatim>\<open>{errorMessage: message}\<close> as body when it is set.
\<close>

theorem prepareErrorResponse_shape:
  "(\<not> truthy (useBody s) \<longrightarrow>
      prepareErrorResponse env s (JStr message)
        = JObj [(''errorMessage'', JStr message), (''responseType'', JStr ''error'')])
   \<and> (truthy (useBody s) \<longrightarrow>
      prepareErrorResponse env s (JStr message)
        = JObj [(''statusCode'', JNum (Fin 400)),
                (''body'', JSON_stringify env (JObj [(''errorMessage'', JStr message)]))])
   \<and> JSON_stringify env (JObj [(''errorMessage'', JStr message)])
       = JStr (''{'' @ quote_json ''errorMessage'' @ '':'' @ quote_json message @ ''}'')
   \<and> get_member env (prepareErrorResponse env module_loaded (JStr ''boom'')) ''responseType''
       = Returns (JStr ''error'')
   \<and> get_member env (prepareErrorResponse env module_loaded (JStr ''boom'')) ''errorMessage''
       = Returns (JStr ''boom'')"
  by (simp add: prepareErrorResponse_def JSON_stringify_def module_loaded_def get_member_JObj)

theorem prepareErrorResponse_shape_witness:
  "\<not> truthy (useBody module_loaded)
   \<and> prepareErrorResponse sample_env module_loaded (JStr ''boom'')
       = JObj [(''errorMessage'', JStr ''boom''), (''responseType'', JStr ''error'')]
   \<and> truthy (useBody (module_loaded\<lparr>useBody := JBool True\<rparr>))
   \<and> prepareErrorResponse sample_env (module_loaded\<lparr>useBody := JBool True\<rparr>) (JStr ''boom'')
       = JObj [(''statusCode'', JNum (Fin 400)),
               (''body'', JStr (''{'' @ [CHR 0x22] @ ''errorMessage'' @ [CHR 0x22] @ '':''
                                 @ [CHR 0x22] @ ''boom'' @ [CHR 0x22] @ ''}''))]"
  using prepareErrorResponse_shape [of module_loaded sample_env "''boom''"]
    prepareErrorResponse_shape [of "module_loaded\<lparr>useBody := JBool True\<rparr>" sample_env "''boom''"]
  by (simp add: module_loaded_def quote_json_def escape_char_def)

section \<open>Properties of saveRelatedObject\<close>

lemma sum_case_same: "(case r of Inl e \<Rightarrow> Inl e | Inr d \<Rightarrow> Inr d) = r"
  by (cases r) simp_all

lemma optional_chain_truthy:
  "truthy (optional_chain opts BypassValidation)
     = (\<exists>kvs x. opts = JObj kvs \<and> map_of kvs ''bypassValidation'' = Some x \<and> truthy x)"
  by (cases opts) (auto simp: optional_chain_def field_of_def split: option.splits)

lemma saveRelatedObject_request:
  assumes "to_string env (serviceAddress s) = Inr address"
    and "to_string env (sandboxKey s) = Inr sandbox"
    and "to_string env (authToken s) = Inr token"
  shows "saveRelatedObject env service s w parentElementId parentKey elementId objectToSave opts
    = (let request = \<lparr> http_method = ''POST'',
                       url = address @ ''/schema/sandboxes/'' @ sandbox
                             @ ''/'' @ parentElementId @ ''/'' @ parentKey @ ''/'' @ elementId
                             @ (if truthy (optional_chain opts BypassValidation)
                                then ''?bypassValidation=true'' else []),
                       data = objectToSave,
                       headers = [(''Authorization'', ''Bearer '' @ token)] \<rparr>
       in (w\<lparr>console := console w
               @ [''Sending POST request to '' @ url request @ '' with token '' @ token],
             requests := requests w @ [request]\<rparr>,
           service request))"
  using assms by (simp add: saveRelatedObject_def Let_def sum_case_same)

text \<open>
  Claim C8. The session holds the service address, the sandbox key and the token, which
  are declared as strings; the template literals convert them to strings. When these
  conversions return, as they do for every string, a call of \<^verbatim>\<open>saveRelatedObject\<close> adds
  exactly one request to those issued before: a POST to the URL built from the service
  address, the sandbox key and the three path segments, with \<open>objectToSave\<close> as its
  body and the bearer token as its \<^verbatim>\<open>Authorization\<close> header, and the result of the call
  is the answer of the service to that request, unchanged. The URL ends with
  \<^verbatim>\<open>?bypassValidation=true\<close> exactly when \<open>opts\<close> is an object whose own property
  \<^verbatim>\<open>bypassValidation\<close> is truthy: not when \<open>opts\<close> is \<^verbatim>\<open>undefined\<close>, \<^verbatim>\<open>null\<close>,
  \<^verbatim>\<open>{}\<close> or \<^verbatim>\<open>{bypassValidation: false}\<close>, and it does for \<^verbatim>\<open>{bypassValidation: true}\<close>.
\<close>

theorem saveRelatedObject_single_POST:
  "(to_string env (serviceAddress s) = Inr address
      \<and> to_string env (sandboxKey s) = Inr sandbox
      \<and> to_string env (authToken s) = Inr token \<longrightarrow>
      (\<exists>request.
          requests (fst (saveRelatedObject env service s w parentElementId parentKey elementId objectToSave opts))
            = requests w @ [request]
        \<and> http_method request = ''POST''
        \<and> url request
            = address @ ''/schema/sandboxes/'' @ sandbox
              @ ''/'' @ parentElementId @ ''/'' @ parentKey @ ''/'' @ elementId
              @ (if \<exists>kvs x. opts = JObj kvs \<and> map_of kvs ''bypassValidation'' = Some x \<and> truthy x
                 then ''?bypassValidation=true'' else [])
        \<and> data request = objectToSave
        \<and> headers request = [(''Authorization'', ''Bearer '' @ token)]
        \<and> snd (saveRelatedObject env service s w parentElementId parentKey elementId objectToSave opts)
            = service request))
   \<and> to_string env (JStr text) = Inr text
   \<and> (serviceAddress s = JStr address \<and> sandboxKey s = JStr sandbox \<and> authToken s = JStr token \<longrightarrow>
        map url (requests (fst (saveRelatedObject env service s w ''parent'' ''pk'' ''child'' objectToSave
                                  JUndefined)))
          = map url (requests w) @ [address @ ''/schema/sandboxes/'' @ sandbox @ ''/parent/pk/child'']
      \<and> map url (requests (fst (saveRelatedObject env service s w ''parent'' ''pk'' ''child'' objectToSave
                                  JNull)))
          = map url (requests w) @ [address @ ''/schema/sandboxes/'' @ sandbox @ ''/parent/pk/child'']
      \<and> map url (requests (fst (saveRelatedObject env service s w ''parent'' ''pk'' ''child'' objectToSave
                                  (JObj []))))
          = map url (requests w) @ [address @ ''/schema/sandboxes/'' @ sandbox @ ''/parent/pk/child'']
      \<and> map url (requests (fst (saveRelatedObject env service s w ''parent'' ''pk'' ''child'' objectToSave
                                  (JObj [(''bypassValidation'', JBool False)]))))
          = map url (requests w) @ [address @ ''/schema/sandboxes/'' @ sandbox @ ''/parent/pk/child'']
      \<and> map url (requests (fst (saveRelatedObject env service s w ''parent'' ''pk'' ''child'' objectToSave
                                  (JObj [(''bypassValidation'', JBool True)]))))
          = map url (requests w)
            @ [address @ ''/schema/sandboxes/'' @ sandbox @ ''/parent/pk/child?bypassValidation=true''])"
proof (intro conjI impI)
  assume h: "to_string env (serviceAddress s) = Inr address
      \<and> to_string env (sandboxKey s) = Inr sandbox
      \<and> to_string env (authToken s) = Inr token"
  then have r: "saveRelatedObject env service s w parentElementId parentKey elementId objectToSave opts
    = (let request = \<lparr> http_method = ''POST'',
                       url = address @ ''/schema/sandboxes/'' @ sandbox
                             @ ''/'' @ parentElementId @ ''/'' @ parentKey @ ''/'' @ elementId
                             @ (if truthy (optional_chain opts BypassValidation)
                                then ''?bypassValidation=true'' else []),
                       data = objectToSave,
                       headers = [(''Authorization'', ''Bearer '' @ token)] \<rparr>
       in (w\<lparr>console := console w
               @ [''Sending POST request to '' @ url request @ '' with token '' @ token],
             requests := requests w @ [request]\<rparr>,
           service request))"
    by (intro saveRelatedObject_request) simp_all
  show "\<exists>request.
          requests (fst (saveRelatedObject env service s w parentElementId parentKey elementId objectToSave opts))
            = requests w @ [request]
        \<and> http_method request = ''POST''
        \<and> url request
            = address @ ''/schema/sandboxes/'' @ sandbox
              @ ''/'' @ parentElementId @ ''/'' @ parentKey @ ''/'' @ elementId
              @ (if \<exists>kvs x. opts = JObj kvs \<and> map_of kvs ''bypassValidation'' = Some x \<and> truthy x
                 then ''?bypassValidation=true'' else [])
        \<and> data request = objectToSave
        \<and> headers request = [(''Authorization'', ''Bearer '' @ token)]
        \<and> snd (saveRelatedObject env service s w parentElementId parentKey elementId objectToSave opts)
            = service request"
    unfolding r optional_chain_truthy by (simp add: Let_def)
next
  show "to_string env (JStr text) = Inr text" by simp
next
  assume h: "serviceAddress s = JStr address \<and> sandboxKey s = JStr sandbox \<and> authToken s = JStr token"
  then show "map url (requests (fst (saveRelatedObject env service s w ''parent'' ''pk'' ''child'' objectToSave
                                  JUndefined)))
          = map url (requests w) @ [address @ ''/schema/sandboxes/'' @ sandbox @ ''/parent/pk/child'']"
    by (simp add: saveRelatedObject_def Let_def optional_chain_def field_of_def)
next
  assume h: "serviceAddress s = JStr address \<and> sandboxKey s = JStr sandbox \<and> authToken s = JStr token"
  then show "map url (requests (fst (saveRelatedObject env service s w ''parent'' ''pk'' ''child'' objectToSave
                                  JNull)))
          = map url (requests w) @ [address @ ''/schema/sandboxes/'' @ sandbox @ ''/parent/pk/child'']"
    by (simp add: saveRelatedObject_def Let_def optional_chain_def field_of_def)
next
  assume h: "serviceAddress s = JStr address \<and> sandboxKey s = JStr sandbox \<and> authToken s = JStr token"
  then show "map url (requests (fst (saveRelatedObject env service s w ''parent'' ''pk'' ''child'' objectToSave
                                  (JObj []))))
          = map url (requests w) @ [address @ ''/schema/sandboxes/'' @ sandbox @ ''/parent/pk/child'']"
    by (simp add: saveRelatedObject_def Let_def optional_chain_def field_of_def)
next
  assume h: "serviceAddress s = JStr address \<and> sandboxKey s = JStr sandbox \<and> authToken s = JStr token"
  then show "map url (requests (fst (saveRelatedObject env service s w ''parent'' ''pk'' ''child'' objectToSave
                                  (JObj [(''bypassValidation'', JBool False)]))))
          = map url (requests w) @ [address @ ''/schema/sandboxes/'' @ sandbox @ ''/parent/pk/child'']"
    by (simp add: saveRelatedObject_def Let_def optional_chain_def field_of_def)
next
  assume h: "serviceAddress s = JStr address \<and> sandboxKey s = JStr sandbox \<and> authToken s = JStr token"
  then show "map url (requests (fst (saveRelatedObject env service s w ''parent'' ''pk'' ''child'' objectToSave
                                  (JObj [(''bypassValidation'', JBool True)]))))
          = map url (requests w)
            @ [address @ ''/schema/sandboxes/'' @ sandbox @ ''/parent/pk/child?bypassValidation=true'']"
    by (simp add: saveRelatedObject_def Let_def optional_chain_def field_of_def)
qed

theorem saveRelatedObject_single_POST_witness:
  "to_string sample_env (serviceAddress example_session) = Inr ''https://svc''
   \<and> to_string sample_env (sandboxKey example_session) = Inr ''sb''
   \<and> to_string sample_env (authToken example_session) = Inr ''tok''
   \<and> serviceAddress example_session = JStr ''https://svc''
   \<and> sandboxKey example_session = JStr ''sb''
   \<and> authToken example_session = JStr ''tok''
   \<and> (\<exists>request.
        requests (fst (saveRelatedObject sample_env (\<lambda>r. Inr (JObj [(''objKey'', JStr ''k1'')]))
            example_session \<lparr>console = [], requests = []\<rparr> ''parent'' ''pk'' ''child''
            (JObj [(''n'', JNum (Fin 1))]) (JObj [(''bypassValidation'', JNum (Fin 1))])))
          = [request]
      \<and> http_method request = ''POST''
      \<and> url request = ''https://svc/schema/sandboxes/sb/parent/pk/child?bypassValidation=true''
      \<and> data request = JObj [(''n'', JNum (Fin 1))]
      \<and> headers request = [(''Authorization'', ''Bearer tok'')]
      \<and> snd (saveRelatedObject sample_env (\<lambda>r. Inr (JObj [(''objKey'', JStr ''k1'')]))
            example_session \<lparr>console = [], requests = []\<rparr> ''parent'' ''pk'' ''child''
            (JObj [(''n'', JNum (Fin 1))]) (JObj [(''bypassValidation'', JNum (Fin 1))]))
          = Inr (JObj [(''objKey'', JStr ''k1'')]))
   \<and> (\<exists>request.
        requests (fst (saveRelatedObject sample_env (\<lambda>r. Inl (HttpError ''500''))
            example_session \<lparr>console = [], requests = []\<rparr> ''parent'' ''pk'' ''child''
            (JObj [(''n'', JNum (Fin 1))]) (JArr [JBool True])))
          = [request]
      \<and> url request = ''https://svc/schema/sandboxes/sb/parent/pk/child''
      \<and> snd (saveRelatedObject sample_env (\<lambda>r. Inl (HttpError ''500''))
            example_session \<lparr>console = [], requests = []\<rparr> ''parent'' ''pk'' ''child''
            (JObj [(''n'', JNum (Fin 1))]) (JArr [JBool True]))
          = Inl (HttpError ''500''))
   \<and> map url (requests (fst (saveRelatedObject sample_env (\<lambda>r. Inr JNull) example_session
         \<lparr>console = [], requests = []\<rparr> ''parent'' ''pk'' ''child'' JNull JUndefined)))
       = [''https://svc/schema/sandboxes/sb/parent/pk/child'']
   \<and> map url (requests (fst (saveRelatedObject sample_env (\<lambda>r. Inr JNull) example_session
         \<lparr>console = [], requests = []\<rparr> ''parent'' ''pk'' ''child'' JNull (JObj []))))
       = [''https://svc/schema/sandboxes/sb/parent/pk/child'']
   \<and> map url (requests (fst (saveRelatedObject sample_env (\<lambda>r. Inr JNull) example_session
         \<lparr>console = [], requests = []\<rparr> ''parent'' ''pk'' ''child'' JNull
         (JObj [(''bypassValidation'', JBool False)]))))
       = [''https://svc/schema/sandboxes/sb/parent/pk/child'']
   \<and> map url (requests (fst (saveRelatedObject sample_env (\<lambda>r. Inr JNull) example_session
         \<lparr>console = [], requests = []\<rparr> ''parent'' ''pk'' ''child'' JNull
         (JObj [(''bypassValidation'', JBool True)]))))
       = [''https://svc/schema/sandboxes/sb/parent/pk/child?bypassValidation=true'']"
proof -
  have s: "to_string sample_env (serviceAddress example_session) = Inr ''https://svc''
     \<and> to_string sample_env (sandboxKey example_session) = Inr ''sb''
     \<and> to_string sample_env (authToken example_session) = Inr ''tok''"
    by (simp add: example_session_def)
  have j: "serviceAddress example_session = JStr ''https://svc''
     \<and> sandboxKey example_session = JStr ''sb''
     \<and> authToken example_session = JStr ''tok''"
    by (simp add: example_session_def)
  have o1: "\<exists>kvs x. JObj [(''bypassValidation'', JNum (Fin 1))] = JObj kvs
              \<and> map_of kvs ''bypassValidation'' = Some x \<and> truthy x"
    by simp
  have o2: "\<not> (\<exists>kvs x. JArr [JBool True] = JObj kvs
              \<and> map_of kvs ''bypassValidation'' = Some x \<and> truthy x)"
    by simp
  note t1 = saveRelatedObject_single_POST [of sample_env example_session "''https://svc''" "''sb''" "''tok''"
      "\<lambda>r. Inr (JObj [(''objKey'', JStr ''k1'')])" "\<lparr>console = [], requests = []\<rparr>"
      "''parent''" "''pk''" "''child''" "JObj [(''n'', JNum (Fin 1))]"
      "JObj [(''bypassValidation'', JNum (Fin 1))]" "''t''"]
  note t2 = saveRelatedObject_single_POST [of sample_env example_session "''https://svc''" "''sb''" "''tok''"
      "\<lambda>r. Inl (HttpError ''500'')" "\<lparr>console = [], requests = []\<rparr>"
      "''parent''" "''pk''" "''child''" "JObj [(''n'', JNum (Fin 1))]"
      "JArr [JBool True]" "''t''"]
  note t3 = saveRelatedObject_single_POST [of sample_env example_session "''https://svc''" "''sb''" "''tok''"
      "\<lambda>r. Inr JNull" "\<lparr>console = [], requests = []\<rparr>"
      "''parent''" "''pk''" "''child''" JNull JUndefined "''t''"]
  from t1 s have a: "\<exists>request.
        requests (fst (saveRelatedObject sample_env (\<lambda>r. Inr (JObj [(''objKey'', JStr ''k1'')]))
            example_session \<lparr>console = [], requests = []\<rparr> ''parent'' ''pk'' ''child''
            (JObj [(''n'', JNum (Fin 1))]) (JObj [(''bypassValidation'', JNum (Fin 1))])))
          = [request]
      \<and> http_method request = ''POST''
      \<and> url request = ''https://svc/schema/sandboxes/sb/parent/pk/child?bypassValidation=true''
      \<and> data request = JObj [(''n'', JNum (Fin 1))]
      \<and> headers request = [(''Authorization'', ''Bearer tok'')]
      \<and> snd (saveRelatedObject sample_env (\<lambda>r. Inr (JObj [(''objKey'', JStr ''k1'')]))
            example_session \<lparr>console = [], requests = []\<rparr> ''parent'' ''pk'' ''child''
            (JObj [(''n'', JNum (Fin 1))]) (JObj [(''bypassValidation'', JNum (Fin 1))]))
          = Inr (JObj [(''objKey'', JStr ''k1'')])"
    by (simp add: o1)
  from t2 s have b: "\<exists>request.
        requests (fst (saveRelatedObject sample_env (\<lambda>r. Inl (HttpError ''500''))
            example_session \<lparr>console = [], requests = []\<rparr> ''parent'' ''pk'' ''child''
            (JObj [(''n'', JNum (Fin 1))]) (JArr [JBool True])))
          = [request]
      \<and> url request = ''https://svc/schema/sandboxes/sb/parent/pk/child''
      \<and> snd (saveRelatedObject sample_env (\<lambda>r. Inl (HttpError ''500''))
            example_session \<lparr>console = [], requests = []\<rparr> ''parent'' ''pk'' ''child''
            (JObj [(''n'', JNum (Fin 1))]) (JArr [JBool True]))
          = Inl (HttpError ''500'')"
    by (simp add: o2) blast
  from t3 j have c: "map url (requests (fst (saveRelatedObject sample_env (\<lambda>r. Inr JNull) example_session
         \<lparr>console = [], requests = []\<rparr> ''parent'' ''pk'' ''child'' JNull JUndefined)))
       = [''https://svc/schema/sandboxes/sb/parent/pk/child'']
   \<and> map url (requests (fst (saveRelatedObject sample_env (\<lambda>r. Inr JNull) example_session
         \<lparr>console = [], requests = []\<rparr> ''parent'' ''pk'' ''child'' JNull (JObj []))))
       = [''https://svc/schema/sandboxes/sb/parent/pk/child'']
   \<and> map url (requests (fst (saveRelatedObject sample_env (\<lambda>r. Inr JNull) example_session
         \<lparr>console = [], requests = []\<rparr> ''parent'' ''pk'' ''child'' JNull
         (JObj [(''bypassValidation'', JBool False)]))))
       = [''https://svc/schema/sandboxes/sb/parent/pk/child'']
   \<and> map url (requests (fst (saveRelatedObject sample_env (\<lambda>r. Inr JNull) example_session
         \<lparr>console = [], requests = []\<rparr> ''parent'' ''pk'' ''child'' JNull
         (JObj [(''bypassValidation'', JBool True)]))))
       = [''https://svc/schema/sandboxes/sb/parent/pk/child?bypassValidation=true'']"
    by simp
  from s j a b c show ?thesis by blast
qed

section \<open>Properties of sortObjectArray\<close>




subsection \<open>The insertion sort conforms\<close>















subsection \<open>What a conforming sort gives\<close>

lemma conforming_mset:
  "conforming_sort srt \<Longrightarrow> srt comparefn xs = Returns ys \<Longrightarrow> mset ys = mset xs"
  unfolding conforming_sort_def by blast

lemma conforming_sorted:
  "conforming_sort srt \<Longrightarrow> consistent_on (SortCompare comparefn) (set xs) \<Longrightarrow>
   \<exists>ys. srt comparefn xs = Returns ys \<and> sorted_wrt (ordered_before (SortCompare comparefn)) ys"
  unfolding conforming_sort_def by blast

lemma mset_two: "mset ys = mset [a, b] \<Longrightarrow> ys = [a, b] \<or> ys = [b, a]"
proof -
  assume m: "mset ys = mset [a, b]"
  then have "length ys = 2" by (metis length_Cons list.size(3) one_add_one size_mset Suc_eq_plus1 numeral_2_eq_2)
  then obtain p q where ys: "ys = [p, q]"
    by (metis (no_types, opaque_lifting) Suc_length_conv length_0_conv numeral_2_eq_2)
  with m have "{#p, q#} = {#a, b#}" by simp
  then have "(p = a \<and> q = b) \<or> (p = b \<and> q = a)"
    by (metis (full_types) add_mset_eq_single add_eq_conv_ex)
  with ys show ?thesis by auto
qed

lemma sort_two_swapped:
  assumes "conforming_sort (ArraySort env)"
    and "consistent_on (SortCompare (\<lambda>a b. compare_fields env a b sf)) {p, q}"
    and "\<not> ordered_before (SortCompare (\<lambda>a b. compare_fields env a b sf)) p q"
  shows "sortObjectArray env (Map.empty(array \<mapsto> [p, q])) array sf
           = Returns (Map.empty(array \<mapsto> [q, p]), array)"
proof -
  let ?f = "\<lambda>a b. compare_fields env a b sf"
  from assms(2) have c: "consistent_on (SortCompare ?f) (set [p, q])" by simp
  from conforming_sorted [OF assms(1) c] obtain ys where
    ys: "ArraySort env ?f [p, q] = Returns ys" "sorted_wrt (ordered_before (SortCompare ?f)) ys"
    by blast
  from conforming_mset [OF assms(1) ys(1)] have "ys = [p, q] \<or> ys = [q, p]"
    by (rule mset_two)
  with ys(2) assms(3) have "ys = [q, p]" by auto
  with ys(1) show ?thesis by (simp add: sortObjectArray_def)
qed


subsection \<open>The examples\<close>

lemmas eval_compare = getValueFromObject_def component_field_def compareValues_def
  js_lt_def js_gt_def prim_lt_def double_bang_def SortCompare_def get_member_JObj by_field_def

lemmas eval_order = consistent_on_def comparison_of_def below_def above_def ordered_before_def



lemma number_compare:
  "compare_fields env (JObj [(''a'', JNum (Fin x))]) (JObj [(''a'', JNum (Fin y))])
      (by_field ''a'' desc None)
    = Returns (if x < y then (if double_bang desc then 1 else - 1)
               else if y < x then (if double_bang desc then - 1 else 1) else 0)"
  by (simp add: eval_compare)






lemma descending_sorted:
  assumes "conforming_sort (ArraySort env)"
  shows "sortObjectArray env (Map.empty(0 \<mapsto> [JObj [(''a'', JNum (Fin 1))], JObj [(''a'', JNum (Fin 2))]]))
            0 (by_field ''a'' (Some True) None)
     = Returns (Map.empty(0 \<mapsto> [JObj [(''a'', JNum (Fin 2))], JObj [(''a'', JNum (Fin 1))]]), 0)"
proof -
  let ?p = "JObj [(''a'', JNum (Fin 1))]"
  let ?q = "JObj [(''a'', JNum (Fin 2))]"
  let ?cmp = "SortCompare (\<lambda>a b. compare_fields env a b (by_field ''a'' (Some True) None))"
  have c: "consistent_on ?cmp {?p, ?q}"
    by (simp add: eval_order SortCompare_def number_compare double_bang_def)
  have n: "\<not> ordered_before ?cmp ?p ?q"
    by (simp add: eval_order SortCompare_def number_compare double_bang_def)
  from sort_two_swapped [OF assms c n, of 0] show ?thesis .
qed





text \<open>
  A comparison that is not consistent: with \<open>caseInsensitive\<close> set, the empty string
  against an array compares 1 and the array against the empty string compares 0. The
  language leaves the order of a sort by it to the implementation.
\<close>

lemma inconsistent_example:
  "compare_fields env (JObj [(''a'', JStr '''')]) (JObj [(''a'', JArr [])])
      (by_field ''a'' None (Some True)) = Returns 1
   \<and> compare_fields env (JObj [(''a'', JArr [])]) (JObj [(''a'', JStr '''')])
      (by_field ''a'' None (Some True)) = Returns 0
   \<and> \<not> consistent_on (SortCompare (\<lambda>a b. compare_fields env a b (by_field ''a'' None (Some True))))
         {JObj [(''a'', JStr '''')], JObj [(''a'', JArr [])]}"
  by (simp add: eval_order eval_compare)




section \<open>Properties of JSON text and prepareSuccessResponse\<close>

lemma of_char_34: "((of_char c :: nat) = 34) = (c = CHR 0x22)"
proof -
  have "(34::nat) = of_char (CHR 0x22)" by simp
  then show ?thesis by (simp only: of_char_eq_iff)
qed

lemma of_char_92: "((of_char c :: nat) = 92) = (c = CHR 0x5C)"
proof -
  have "(92::nat) = of_char (CHR 0x5C)" by simp
  then show ?thesis by (simp only: of_char_eq_iff)
qed

lemma of_char_8: "((of_char c :: nat) = 8) = (c = CHR 0x08)"
proof -
  have "(8::nat) = of_char (CHR 0x08)" by simp
  then show ?thesis by (simp only: of_char_eq_iff)
qed

lemma of_char_9: "((of_char c :: nat) = 9) = (c = CHR 0x09)"
proof -
  have "(9::nat) = of_char (CHR 0x09)" by simp
  then show ?thesis by (simp only: of_char_eq_iff)
qed

lemma of_char_10: "((of_char c :: nat) = 10) = (c = CHR 0x0A)"
proof -
  have "(10::nat) = of_char (CHR 0x0A)" by simp
  then show ?thesis by (simp only: of_char_eq_iff)
qed

lemma of_char_12: "((of_char c :: nat) = 12) = (c = CHR 0x0C)"
proof -
  have "(12::nat) = of_char (CHR 0x0C)" by simp
  then show ?thesis by (simp only: of_char_eq_iff)
qed

lemma of_char_13: "((of_char c :: nat) = 13) = (c = CHR 0x0D)"
proof -
  have "(13::nat) = of_char (CHR 0x0D)" by simp
  then show ?thesis by (simp only: of_char_eq_iff)
qed

lemmas of_char_codes = of_char_34 of_char_92 of_char_8 of_char_9 of_char_10 of_char_12 of_char_13

lemma hex_val_hex_digit: "d < 16 \<Longrightarrow> hex_val (hex_digit d) = Some d"
  by (simp add: hex_val_def hex_digit_def Let_def)

lemma escape_char_cases:
  "escape_char c =
     (if c = CHR 0x22 then [CHR 0x5C, CHR 0x22]
      else if c = CHR 0x5C then [CHR 0x5C, CHR 0x5C]
      else if c = CHR 0x08 then [CHR 0x5C, CHR ''b'']
      else if c = CHR 0x09 then [CHR 0x5C, CHR ''t'']
      else if c = CHR 0x0A then [CHR 0x5C, CHR ''n'']
      else if c = CHR 0x0C then [CHR 0x5C, CHR ''f'']
      else if c = CHR 0x0D then [CHR 0x5C, CHR ''r'']
      else if (of_char c :: nat) < 32
        then [CHR 0x5C, CHR ''u'', CHR ''0'', CHR ''0'',
              hex_digit (of_char c div 16), hex_digit (of_char c mod 16)]
      else [c])"
  by (simp only: escape_char_def Let_def of_char_codes)


lemma parse_chars_backslash:
  "unescape e = Some ch \<Longrightarrow> e \<noteq> CHR ''u'' \<Longrightarrow>
   parse_chars (CHR 0x5C # e # tail) =
     (case parse_chars tail of Some (s, r) \<Rightarrow> Some (ch # s, r) | None \<Rightarrow> None)"
  by simp

lemma parse_chars_unicode:
  assumes "n < 32"
  shows "parse_chars (CHR 0x5C # CHR ''u'' # CHR ''0'' # CHR ''0''
            # hex_digit (n div 16) # hex_digit (n mod 16) # tail) =
     (case parse_chars tail of Some (s, r) \<Rightarrow> Some (char_of n # s, r) | None \<Rightarrow> None)"
proof -
  have hi: "hex_val (hex_digit (n div 16)) = Some (n div 16)"
    using assms by (intro hex_val_hex_digit) simp
  have lo: "hex_val (hex_digit (n mod 16)) = Some (n mod 16)"
    by (intro hex_val_hex_digit) simp
  have zero: "hex_val CHR ''0'' = Some 0"
    by (simp add: hex_val_def)
  have recompose: "16 * (n div 16) + n mod 16 = n"
    by simp
  show ?thesis
    by (simp add: hi lo zero recompose del: mult_div_mod_eq div_mult_mod_eq cong: option.case_cong)
qed

lemma parse_chars_plain:
  "c \<noteq> CHR 0x22 \<Longrightarrow> c \<noteq> CHR 0x5C \<Longrightarrow> \<not> (of_char c :: nat) < 32 \<Longrightarrow>
   parse_chars (c # tail) =
     (case parse_chars tail of Some (s, r) \<Rightarrow> Some (c # s, r) | None \<Rightarrow> None)"
  by simp

lemma parse_chars_escape:
  "parse_chars (escape_char c @ tail) =
     (case parse_chars tail of Some (s, r) \<Rightarrow> Some (c # s, r) | None \<Rightarrow> None)"
proof (cases "c = CHR 0x22 \<or> c = CHR 0x5C \<or> c = CHR 0x08 \<or> c = CHR 0x09
    \<or> c = CHR 0x0A \<or> c = CHR 0x0C \<or> c = CHR 0x0D")
  case True
  then show ?thesis
    by (elim disjE)
       (simp_all add: escape_char_cases parse_chars_backslash unescape_def
          del: parse_chars.simps cong: option.case_cong)
next
  case False
  show ?thesis
  proof (cases "(of_char c :: nat) < 32")
    case True
    with False have e: "escape_char c = [CHR 0x5C, CHR ''u'', CHR ''0'', CHR ''0'',
              hex_digit (of_char c div 16), hex_digit (of_char c mod 16)]"
      by (simp add: escape_char_cases)
    show ?thesis
      using parse_chars_unicode [OF True, of tail]
      by (simp add: e del: parse_chars.simps cong: option.case_cong)
  next
    case ge: False
    with False have e: "escape_char c = [c]"
      by (simp add: escape_char_cases)
    from False ge show ?thesis
      by (simp add: e parse_chars_plain del: parse_chars.simps)
  qed
qed

lemma parse_chars_quote:
  "parse_chars (concat (map escape_char s) @ CHR 0x22 # rest) = Some (s, rest)"
proof (induction s)
  case Nil
  show ?case by simp
next
  case (Cons c s)
  then show ?case
    by (simp add: parse_chars_escape del: parse_chars.simps)
qed

lemma parse_chars_quote_json:
  "parse_chars (tl (quote_json s) @ rest) = Some (s, rest)"
  using parse_chars_quote [of s rest] by (simp add: quote_json_def)

declare string_of_nat.simps [simp del]











subsection \<open>Numerals\<close>




















lemma skip_ws_start: "\<not> is_ws c \<Longrightarrow> skip_ws (c # cs) = c # cs"
  by simp









































end
